theory Spec2Isabelle
  imports Main "HOL-Library.Word"
begin

section \<open>Data model of the TritonGPU to LLVM conversion pass\<close>

text \<open>
  A shallow embedding of \<^verbatim>\<open>lib/Conversion/TritonGPUToLLVM/TritonGPUToLLVMPass.cpp\<close>.
  C++ \<^verbatim>\<open>int\<close> and \<^verbatim>\<open>unsigned\<close> are 32-bit words (arithmetic wraps, \<open><\<close> on
  words is the unsigned order), \<^verbatim>\<open>int64_t\<close> is a 64-bit word.
\<close>

type_synonym i32 = "32 word"
type_synonym i64 = "64 word"

text \<open>The backend selector \<^verbatim>\<open>triton::Target\<close>; the pass switches over these three names.\<close>

datatype Target = NVVM | ROCDL | GENX

subsection \<open>Vector width of an async copy (\<^verbatim>\<open>decomposeInsertSliceAsyncOp\<close>, the load size)\<close>

text \<open>
  \<^verbatim>\<open>
  unsigned inVec = axisInfoAnalysis.getPtrContiguity(src);
  if (mask)
    inVec = std::min<unsigned>(axisInfoAnalysis.getMaskAlignment(mask), inVec);
  unsigned outVec = resSharedLayout.getVec();
  unsigned minVec = inVec;
  if (outVec > 1)
    minVec = std::min(outVec, inVec);
  auto maxBitWidth = std::max<unsigned>(128, resElemTy.getIntOrFloatBitWidth());
  auto vecBitWidth = resElemTy.getIntOrFloatBitWidth() * minVec;
  auto bitWidth = std::min<unsigned>(maxBitWidth, vecBitWidth);
  auto byteWidth = bitWidth / 8;
  \<close>
  The results of the axis analysis (pointer contiguity of the source, alignment of the
  mask when there is one), the vector width of the destination's shared layout and the
  bit width of the element type are the inputs.
\<close>

definition inVec :: "i32 \<Rightarrow> i32 option \<Rightarrow> i32" where
  "inVec ptrContiguity maskAlignment =
     (case maskAlignment of
        None \<Rightarrow> ptrContiguity
      | Some a \<Rightarrow> min a ptrContiguity)"

definition minVec :: "i32 \<Rightarrow> i32 option \<Rightarrow> i32 \<Rightarrow> i32" where
  "minVec ptrContiguity maskAlignment outVec =
     (let iv = inVec ptrContiguity maskAlignment
      in if 1 < outVec then min outVec iv else iv)"

definition byteWidth :: "i32 \<Rightarrow> i32 option \<Rightarrow> i32 \<Rightarrow> i32 \<Rightarrow> i32" where
  "byteWidth ptrContiguity maskAlignment outVec elemBits =
     (let maxBitWidth = max 128 elemBits;
          vecBitWidth = elemBits * minVec ptrContiguity maskAlignment outVec;
          bitWidth = min maxBitWidth vecBitWidth
      in bitWidth div 8)"

text \<open>
  The same two quantities as the specification words them: the least of the source
  contiguity, the destination layout's vector width and (with a mask) the mask
  alignment; then \<open>min(128, bits \<times> width) / 8\<close>.
\<close>

definition spec_vec :: "i32 \<Rightarrow> i32 option \<Rightarrow> i32 \<Rightarrow> i32" where
  "spec_vec ptrContiguity maskAlignment outVec =
     (case maskAlignment of
        None \<Rightarrow> min ptrContiguity outVec
      | Some a \<Rightarrow> min (min ptrContiguity outVec) a)"

definition spec_byteWidth :: "i32 \<Rightarrow> i32 option \<Rightarrow> i32 \<Rightarrow> i32 \<Rightarrow> i32" where
  "spec_byteWidth ptrContiguity maskAlignment outVec elemBits =
     min 128 (elemBits * spec_vec ptrContiguity maskAlignment outVec) div 8"

subsection \<open>Types, attributes and values\<close>

text \<open>
  Types: the builtin integer types and the LLVM dialect's pointer (with its address
  space), array and literal struct types; \<open>TritonType k\<close> stands for a mid-level type
  (tensor, Triton pointer, ...) that only the type converter looks into.
\<close>

datatype mlir_type =
    IntegerType nat
  | LLVMPointerType nat
  | LLVMArrayType mlir_type nat
  | LLVMStructType "mlir_type list"
  | TritonType nat

datatype attribute =
    IntegerAttr nat i64
  | I32ArrayAttr "i32 list"
  | DenseI32ArrayAttr "i32 list"
  | StringAttr string
  | ArrayAttr "attribute list"
  | DictionaryAttr "(string \<times> attribute) list"
  | OpaqueAttr nat

type_synonym named_attrs = "(string \<times> attribute) list"

definition hasAttr :: "named_attrs \<Rightarrow> string \<Rightarrow> bool" where
  "hasAttr as n = (map_of as n \<noteq> None)"

text \<open>\<^verbatim>\<open>op->setAttr(name, value)\<close>: the entry of that name is replaced, or a new one added.\<close>

fun setAttr :: "string \<Rightarrow> attribute \<Rightarrow> named_attrs \<Rightarrow> named_attrs" where
  "setAttr n v [] = [(n, v)]"
| "setAttr n v ((k, x) # as) = (if k = n then (n, v) # as else (k, x) # setAttr n v as)"

text \<open>
  \<^verbatim>\<open>op->setDialectAttrs(attrs)\<close> of MLIR's \<^verbatim>\<open>Operation\<close>: the dialect attributes (those
  whose name contains a dot) become exactly the given ones; the other attributes stay.
\<close>

definition setDialectAttrs :: "named_attrs \<Rightarrow> named_attrs \<Rightarrow> named_attrs" where
  "setDialectAttrs dialectAttrs as =
     dialectAttrs @ filter (\<lambda>(k, x). CHR ''.'' \<notin> set k) as"

text \<open>
  SSA values as the pass sees them: a value already in the IR (with its type), the
  result of an operation that a pattern creates (\<^verbatim>\<open>llvm.mlir.undef\<close>,
  \<^verbatim>\<open>llvm.insertvalue\<close>, \<^verbatim>\<open>llvm.extractvalue\<close>, the \<open>i\<close>-th result of the
  \<^verbatim>\<open>llvm.call\<close> that replaces the call numbered \<open>c\<close>), and the two shared-memory bases.
\<close>

datatype val =
    Value nat mlir_type
  | UndefOp mlir_type
  | InsertValueOp mlir_type val val nat
  | ExtractValueOp val nat
  | LLVMCallResult nat nat mlir_type
  | StackPointer string
  | SharedMemoryBase nat

text \<open>
  Modelled from the spec: \<^verbatim>\<open>LLVM::getStackPointer\<close> and \<^verbatim>\<open>LLVM::getSharedMemoryBase\<close>
  are declared outside this file. The specification describes what they return as the
  caller's own shared-memory high-water-mark value and a computed shared-memory base
  address, both of pointer type; the address space is that of the trailing parameter
  (3).
\<close>

definition getStackPointer :: "string \<Rightarrow> Target \<Rightarrow> val" where
  "getStackPointer caller target = StackPointer caller"

definition getSharedMemoryBase :: "nat \<Rightarrow> Target \<Rightarrow> val" where
  "getSharedMemoryBase callOp target = SharedMemoryBase callOp"

fun elementType :: "mlir_type \<Rightarrow> nat \<Rightarrow> mlir_type" where
  "elementType (LLVMStructType ts) i = (if i < length ts then ts ! i else LLVMStructType ts)"
| "elementType (LLVMArrayType t n) i = t"
| "elementType t i = t"

fun valType :: "val \<Rightarrow> mlir_type" where
  "valType (Value k t) = t"
| "valType (UndefOp t) = t"
| "valType (InsertValueOp t agg v i) = t"
| "valType (ExtractValueOp agg i) = elementType (valType agg) i"
| "valType (LLVMCallResult c i t) = t"
| "valType (StackPointer f) = LLVMPointerType 3"
| "valType (SharedMemoryBase c) = LLVMPointerType 3"

text \<open>The outcome of a pattern: \<^verbatim>\<open>failure()\<close>, or a match failure reported with a message.\<close>

datatype failure = failure | notifyMatchFailure string

subsection \<open>The type converter\<close>

text \<open>
  The pass hands a \<^verbatim>\<open>TritonGPUToLLVMTypeConverter\<close> to every pattern. Types of the LLVM
  dialect and the builtin integer types are legal as they are; what the converter does
  with a mid-level type is the parameter \<open>tc\<close> (\<open>None\<close> when it has no conversion).
  \<^verbatim>\<open>packFunctionResults\<close> is the \<^verbatim>\<open>LLVMTypeConverter\<close>'s: one type converts to itself
  converted, several to a literal struct of the converted types.
\<close>

fun convertType :: "(nat \<Rightarrow> mlir_type option) \<Rightarrow> mlir_type \<Rightarrow> mlir_type option" where
  "convertType tc (TritonType k) = tc k"
| "convertType tc t = Some t"

definition convertTypes :: "(nat \<Rightarrow> mlir_type option) \<Rightarrow> mlir_type list \<Rightarrow> mlir_type list option" where
  "convertTypes tc ts = those (map (convertType tc) ts)"

definition packFunctionResults :: "(nat \<Rightarrow> mlir_type option) \<Rightarrow> mlir_type list \<Rightarrow> mlir_type option" where
  "packFunctionResults tc ts =
     (case ts of
        [t] \<Rightarrow> convertType tc t
      | _ \<Rightarrow> map_option LLVMStructType (convertTypes tc ts))"

subsection \<open>Module attributes and the warp count\<close>

text \<open>
  The module attributes the pass reads: \<^verbatim>\<open>getNumWarps\<close>, \<^verbatim>\<open>getNumCTAs\<close>,
  \<^verbatim>\<open>getThreadsPerWarp\<close> and the optional \<^verbatim>\<open>triton_gpu.num-warp-groups-per-cta\<close>.
  \<^verbatim>\<open>
  int numWarps = triton::gpu::TritonGPUDialect::getNumWarps(mod);
  if (Attribute attr = mod->getAttr("triton_gpu.num-warp-groups-per-cta")) {
    numWarps *= attr.cast<IntegerAttr>().getInt();
  }
  \<close>
  \<^verbatim>\<open>getInt\<close> is an \<^verbatim>\<open>int64_t\<close>: the product is taken in 64 bits and cut to \<^verbatim>\<open>int\<close>.
\<close>

record ModuleAttrs =
  numWarps :: i32
  numCTAs :: i32
  threadsPerWarp :: i32
  numWarpGroupsPerCTA :: "i64 option"

definition effectiveNumWarps :: "'a ModuleAttrs_scheme \<Rightarrow> i32" where
  "effectiveNumWarps m =
     (case numWarpGroupsPerCTA m of
        None \<Rightarrow> numWarps m
      | Some g \<Rightarrow> ucast ((scast (numWarps m) :: i64) * g))"

subsection \<open>Functions and their lowering (\<^verbatim>\<open>FuncOpConversion\<close>)\<close>

text \<open>
  A \<^verbatim>\<open>tt.func\<close>: its name, whether \<^verbatim>\<open>LLVM::isKernel\<close> holds of it (the predicate is
  declared outside this file), its function type, its attributes other than name, type
  and argument attributes, its argument attributes, and the argument types of its entry
  block. The operations of the body move with the region and are not touched here.
\<close>

record FuncOp =
  sym_name :: string
  isKernel :: bool
  inputs :: "mlir_type list"
  results :: "mlir_type list"
  attrs :: named_attrs
  argAttrs :: "attribute list"
  blockArgs :: "mlir_type list"

text \<open>An \<^verbatim>\<open>llvm.func\<close>; its function type has no result (void) or one.\<close>

record LLVMFuncOp =
  llName :: string
  llInputs :: "mlir_type list"
  llResults :: "mlir_type list"
  llAttrs :: named_attrs
  llArgAttrs :: "attribute list"
  llBlockArgs :: "mlir_type list"

text \<open>
  The attribute names of the GENX dialect (\<^verbatim>\<open>GENX::GENXDialect::get...AttrName()\<close>) are
  defined in the dialect, outside this repository: they are a parameter.
\<close>

record GENXDialect =
  KernelFuncAttrName :: string
  MaxWorkGroupSizeAttrName :: string
  ReqdSubGroupSizeAttrName :: string

text \<open>
  \<^verbatim>\<open>
  auto ptrTy = LLVM::LLVMPointerType::get(rewriter.getContext(), 3);
  auto amendedInputTy = llvm::to_vector<4>(funcTy.getInputs());
  amendedInputTy.push_back(ptrTy);
  ...
  auto amendedArgAttrs = llvm::to_vector<4>(funcOp.getAllArgAttrs());
  amendedArgAttrs.emplace_back(DictionaryAttr::get(ctx));
  ...
  region.addArgument(ptrTy, loc);
  \<close>
\<close>

definition ptrTy :: mlir_type where
  "ptrTy = LLVMPointerType 3"

definition amendFuncOp :: "FuncOp \<Rightarrow> FuncOp" where
  "amendFuncOp funcOp =
     funcOp \<lparr> inputs := inputs funcOp @ [ptrTy],
              argAttrs := argAttrs funcOp @ [DictionaryAttr []],
              blockArgs := blockArgs funcOp @ [ptrTy] \<rparr>"

text \<open>
  Modelled from the spec: \<^verbatim>\<open>convertFuncOpToLLVMFuncOp\<close> belongs to the base class
  \<^verbatim>\<open>FuncOpConversionBase\<close>, which is not in this file. It converts the signature type by
  type with the type converter (no result, or the packed results), keeps name and
  attributes, moves the body and converts the types of its block arguments; it returns
  null when a type has no conversion.
\<close>

definition convertFuncOpToLLVMFuncOp :: "(nat \<Rightarrow> mlir_type option) \<Rightarrow> FuncOp \<Rightarrow> LLVMFuncOp option" where
  "convertFuncOpToLLVMFuncOp tc funcOp =
     (case convertTypes tc (inputs funcOp) of
        None \<Rightarrow> None
      | Some ins \<Rightarrow>
          (case (if results funcOp = [] then Some []
                 else map_option (\<lambda>t. [t]) (packFunctionResults tc (results funcOp))) of
             None \<Rightarrow> None
           | Some res \<Rightarrow>
               (case convertTypes tc (blockArgs funcOp) of
                  None \<Rightarrow> None
                | Some bargs \<Rightarrow>
                    Some \<lparr> llName = sym_name funcOp, llInputs = ins, llResults = res,
                           llAttrs = attrs funcOp, llArgAttrs = argAttrs funcOp,
                           llBlockArgs = bargs \<rparr>)))"

text \<open>
  \<^verbatim>\<open>FuncOpConversion::matchAndRewrite\<close>. \<open>nWarps\<close> is the pattern's member \<^verbatim>\<open>numWarps\<close>
  (the pass constructs it with the effective warp count), \<open>tpw\<close> what
  \<^verbatim>\<open>getThreadsPerWarp\<close> reads from the enclosing module.
  \<^verbatim>\<open>
  auto amendedFuncOp = funcOp;
  if (!LLVM::isKernel(funcOp))
    amendedFuncOp = amendFuncOp(funcOp, rewriter);
  auto newFuncOp = convertFuncOpToLLVMFuncOp(amendedFuncOp, rewriter);
  if (!newFuncOp)
    return failure();
  switch (target) {
  case Target::NVVM:
  case Target::ROCDL:
    if (LLVM::isKernel(funcOp))
      newFuncOp->setAttr("nvvm.kernel", rewriter.getIntegerAttr(type::u1Ty(ctx), 1));
    newFuncOp->setAttr("nvvm.maxntid", rewriter.getDenseI32ArrayAttr(32 * numWarps));
    break;
  case Target::GENX:
    NamedAttrList attrs;
    int threadsPerWarp = triton::gpu::TritonGPUDialect::getThreadsPerWarp(mod);
    if (LLVM::isKernel(funcOp))
      attrs.append(GENX::GENXDialect::getKernelFuncAttrName(), rewriter.getI32IntegerAttr(1));
    attrs.append(GENX::GENXDialect::getMaxWorkGroupSizeAttrName(),
                 rewriter.getI32ArrayAttr({threadsPerWarp * numWarps, 1, 1}));
    attrs.append(GENX::GENXDialect::getReqdSubGroupSizeAttrName(),
                 rewriter.getI32ArrayAttr(threadsPerWarp));
    newFuncOp->setDialectAttrs(attrs);
    break;
  }
  if (!LLVM::isKernel(funcOp)) {
    newFuncOp.setPassthroughAttr(ArrayAttr::get(ctx, rewriter.getStringAttr("noinline")));
    rewriter.eraseOp(amendedFuncOp);
  }
  rewriter.eraseOp(funcOp);
  return success();
  \<close>
\<close>

definition targetAttrs :: "GENXDialect \<Rightarrow> i32 \<Rightarrow> Target \<Rightarrow> i32 \<Rightarrow> bool \<Rightarrow> named_attrs \<Rightarrow> named_attrs" where
  "targetAttrs gx nWarps target tpw isK as =
     (case target of
        GENX \<Rightarrow>
          setDialectAttrs
            ((if isK then [(KernelFuncAttrName gx, IntegerAttr 32 1)] else []) @
             [(MaxWorkGroupSizeAttrName gx, I32ArrayAttr [tpw * nWarps, 1, 1]),
              (ReqdSubGroupSizeAttrName gx, I32ArrayAttr [tpw])])
            as
      | _ \<Rightarrow>
          setAttr ''nvvm.maxntid'' (DenseI32ArrayAttr [32 * nWarps])
            (if isK then setAttr ''nvvm.kernel'' (IntegerAttr 1 1) as else as))"

definition FuncOpConversion ::
  "GENXDialect \<Rightarrow> (nat \<Rightarrow> mlir_type option) \<Rightarrow> i32 \<Rightarrow> Target \<Rightarrow> i32 \<Rightarrow> FuncOp \<Rightarrow> failure + LLVMFuncOp" where
  "FuncOpConversion gx tc nWarps target tpw funcOp =
     (let amendedFuncOp = (if \<not> isKernel funcOp then amendFuncOp funcOp else funcOp)
      in case convertFuncOpToLLVMFuncOp tc amendedFuncOp of
           None \<Rightarrow> Inl failure
         | Some newFuncOp \<Rightarrow>
             (let as1 = targetAttrs gx nWarps target tpw (isKernel funcOp) (llAttrs newFuncOp);
                  as2 = (if \<not> isKernel funcOp
                         then setAttr ''passthrough'' (ArrayAttr [StringAttr ''noinline'']) as1
                         else as1)
              in Inr (newFuncOp \<lparr> llAttrs := as2 \<rparr>)))"

text \<open>The pattern as the pass instantiates it for the functions of a module.\<close>

definition lowerFunction ::
  "GENXDialect \<Rightarrow> (nat \<Rightarrow> mlir_type option) \<Rightarrow> Target \<Rightarrow> 'a ModuleAttrs_scheme \<Rightarrow> FuncOp \<Rightarrow> failure + LLVMFuncOp" where
  "lowerFunction gx tc target m funcOp =
     FuncOpConversion gx tc (effectiveNumWarps m) target (threadsPerWarp m) funcOp"

subsection \<open>Return lowering (\<^verbatim>\<open>ReturnOpConversion\<close>)\<close>

text \<open>
  A \<^verbatim>\<open>tt.return\<close> with its (already converted) operands and attributes, and the
  \<^verbatim>\<open>llvm.return\<close> that replaces it. The pattern looks at the enclosing \<^verbatim>\<open>llvm.func\<close>:
  \<^verbatim>\<open>
  if (funcOp->hasAttr("nvvm.kernel")) {
    if (op.getNumOperands() > 0)
      return rewriter.notifyMatchFailure(
          op, "Kernel functions do not support return with operands");
    rewriter.replaceOpWithNewOp<LLVM::ReturnOp>(op, TypeRange(), ValueRange(), op->getAttrs());
  } else {
    if (adaptor.getOperands().size() < 2) {
      newOp = rewriter.create<LLVM::ReturnOp>(op.getLoc(), adaptor.getOperands());
    } else {
      auto packedResultsTy = this->getTypeConverter()->packFunctionResults(funcOp.getResultTypes());
      Value packedResults = rewriter.create<LLVM::UndefOp>(op.getLoc(), packedResultsTy);
      for (auto it : llvm::enumerate(adaptor.getOperands()))
        packedResults = insert_val(packedResultsTy, packedResults, it.value(), it.index());
      newOp = rewriter.create<LLVM::ReturnOp>(op.getLoc(), packedResults);
    }
    newOp->setAttrs(op->getAttrs());
  }
  \<close>
  A null packed type cannot be given to \<^verbatim>\<open>llvm.mlir.undef\<close>: the builder aborts
  (\<open>nullTypeAbort\<close>).
\<close>

record ReturnOp =
  retOperands :: "val list"
  retAttrs :: named_attrs

datatype LLVMReturnOp = LLVMReturnOp "val list" named_attrs

datatype outcome = MatchFailure failure | nullTypeAbort

definition packResults :: "mlir_type \<Rightarrow> val list \<Rightarrow> val" where
  "packResults packedResultsTy operands =
     foldl (\<lambda>packedResults (index, v). InsertValueOp packedResultsTy packedResults v index)
       (UndefOp packedResultsTy) (enumerate 0 operands)"

definition ReturnOpConversion ::
  "(nat \<Rightarrow> mlir_type option) \<Rightarrow> LLVMFuncOp \<Rightarrow> ReturnOp \<Rightarrow> outcome + LLVMReturnOp" where
  "ReturnOpConversion tc funcOp op =
     (if hasAttr (llAttrs funcOp) ''nvvm.kernel'' then
        (if 0 < length (retOperands op)
         then Inl (MatchFailure
                (notifyMatchFailure ''Kernel functions do not support return with operands''))
         else Inr (LLVMReturnOp [] (retAttrs op)))
      else if length (retOperands op) < 2 then
        Inr (LLVMReturnOp (retOperands op) (retAttrs op))
      else
        (case packFunctionResults tc (llResults funcOp) of
           None \<Rightarrow> Inl nullTypeAbort
         | Some packedResultsTy \<Rightarrow>
             Inr (LLVMReturnOp [packResults packedResultsTy (retOperands op)] (retAttrs op))))"

text \<open>
  Reading an aggregate built by insertions: the insertions in the order they were made,
  the value they started from, and the field an \<^verbatim>\<open>llvm.extractvalue\<close> at an index reads.
\<close>

fun insertions :: "val \<Rightarrow> (nat \<times> val) list" where
  "insertions (InsertValueOp t agg v i) = insertions agg @ [(i, v)]"
| "insertions v = []"

fun aggregateBase :: "val \<Rightarrow> val" where
  "aggregateBase (InsertValueOp t agg v i) = aggregateBase agg"
| "aggregateBase v = v"

fun field :: "val \<Rightarrow> nat \<Rightarrow> val option" where
  "field (InsertValueOp t agg v i) j = (if i = j then Some v else field agg j)"
| "field v j = None"

fun isAggregateOp :: "val \<Rightarrow> bool" where
  "isAggregateOp (UndefOp t) = True"
| "isAggregateOp (InsertValueOp t agg v i) = True"
| "isAggregateOp (ExtractValueOp agg i) = True"
| "isAggregateOp v = False"

subsection \<open>Call lowering (\<^verbatim>\<open>CallOpConversion\<close>)\<close>

text \<open>
  A \<^verbatim>\<open>tt.call\<close> (numbered, to name the results of the call that replaces it) with its
  converted operands, its result types and its attributes; and the \<^verbatim>\<open>llvm.call\<close>.
\<close>

record CallOp =
  callId :: nat
  callOperands :: "val list"
  callResultTypes :: "mlir_type list"
  callAttrs :: named_attrs

record LLVMCallOp =
  llCallId :: nat
  llCallResultTypes :: "mlir_type list"
  llCallOperands :: "val list"
  llCallAttrs :: named_attrs

text \<open>
  \<^verbatim>\<open>
  auto promotedOperands = this->getTypeConverter()->promoteOperands(
      callOp.getLoc(), callOp->getOperands(), adaptor.getOperands(), rewriter);
  if (!caller->hasAttr("allocation.offset")) {
    auto base = LLVM::getStackPointer(rewriter, caller, target);
    promotedOperands.push_back(base);
    return promotedOperands;
  }
  promotedOperands.push_back(
      LLVM::getSharedMemoryBase(callOp->getLoc(), rewriter, callOp, target));
  return promotedOperands;
  \<close>
  The type converter's \<^verbatim>\<open>promoteOperands\<close> only rewrites memref operands, which this
  IR does not have: it yields the converted operands as they are.
\<close>

definition promoteOperands :: "Target \<Rightarrow> LLVMFuncOp \<Rightarrow> CallOp \<Rightarrow> val list" where
  "promoteOperands target caller callOp =
     (let promotedOperands = callOperands callOp
      in if \<not> hasAttr (llAttrs caller) ''allocation.offset''
         then promotedOperands @ [getStackPointer (llName caller) target]
         else promotedOperands @ [getSharedMemoryBase (callId callOp) target])"

definition convertCallOpToLLVMCallOp ::
  "(nat \<Rightarrow> mlir_type option) \<Rightarrow> CallOp \<Rightarrow> val list \<Rightarrow> LLVMCallOp option" where
  "convertCallOpToLLVMCallOp tc callOp promotedOperands =
     (if length (callResultTypes callOp) \<noteq> 0 then
        (case packFunctionResults tc (callResultTypes callOp) of
           None \<Rightarrow> None
         | Some packedResult \<Rightarrow>
             Some \<lparr> llCallId = callId callOp, llCallResultTypes = [packedResult],
                    llCallOperands = promotedOperands, llCallAttrs = callAttrs callOp \<rparr>)
      else
        Some \<lparr> llCallId = callId callOp, llCallResultTypes = [],
               llCallOperands = promotedOperands, llCallAttrs = callAttrs callOp \<rparr>)"

definition llvmCallResults :: "LLVMCallOp \<Rightarrow> val list" where
  "llvmCallResults newCallOp =
     map (\<lambda>(i, t). LLVMCallResult (llCallId newCallOp) i t)
       (enumerate 0 (llCallResultTypes newCallOp))"

text \<open>
  \<^verbatim>\<open>
  if (numResults < 2) {
    results.append(newCallOp.result_begin(), newCallOp.result_end());
  } else {
    for (unsigned i = 0; i < numResults; ++i)
      results.push_back(rewriter.create<LLVM::ExtractValueOp>(
          callOp.getLoc(), newCallOp->getResult(0), i));
  }
  \<close>
  \<^verbatim>\<open>getResult(0)\<close> of a call without result is outside the contract of the accessor; the
  call that \<^verbatim>\<open>convertCallOpToLLVMCallOp\<close> builds for two or more results has one.
\<close>

definition getCallOpResults :: "CallOp \<Rightarrow> LLVMCallOp \<Rightarrow> val list" where
  "getCallOpResults callOp newCallOp =
     (let numResults = length (callResultTypes callOp)
      in if numResults < 2 then llvmCallResults newCallOp
         else (case llvmCallResults newCallOp of
                 [] \<Rightarrow> []
               | result0 # _ \<Rightarrow> map (\<lambda>i. ExtractValueOp result0 i) [0..<numResults]))"

definition CallOpConversion ::
  "(nat \<Rightarrow> mlir_type option) \<Rightarrow> Target \<Rightarrow> LLVMFuncOp \<Rightarrow> CallOp \<Rightarrow> failure + LLVMCallOp \<times> val list" where
  "CallOpConversion tc target caller callOp =
     (let promotedOperands = promoteOperands target caller callOp
      in case convertCallOpToLLVMCallOp tc callOp promotedOperands of
           None \<Rightarrow> Inl failure
         | Some newCallOp \<Rightarrow> Inr (newCallOp, getCallOpResults callOp newCallOp))"

subsection \<open>Operations of a module\<close>

text \<open>
  The operations that the walks of this file look at, each with what the code reads from
  it; an SSA value is a number. For \<^verbatim>\<open>triton_gpu.insert_slice_async\<close> the record also
  holds what the code reads from the types of its operands: the shape and the blocked
  encoding (if it is one) of the source type, the shape of the destination type, the
  vector width of its shared layout (\<^verbatim>\<open>resSharedLayout.getVec()\<close>) and the element type
  with its bit width (\<^verbatim>\<open>resElemTy.getIntOrFloatBitWidth()\<close>).
\<close>

type_synonym "value" = nat

datatype OpFoldResult = I64IntegerAttr i64 | OfValue "value"

record InsertSliceAsync =
  isa_src :: "value"
  isa_dst :: "value"
  isa_index :: "value"
  isa_mask :: "value option"
  isa_other :: "value option"
  isa_cache :: nat
  isa_evict :: nat
  isa_isVolatile :: bool
  isa_axis :: nat
  isa_result :: "value"
  isa_attrs :: named_attrs
  isa_srcShape :: "i64 list"
  isa_srcBlocked :: "nat option"
  isa_dstShape :: "i64 list"
  isa_dstVec :: i32
  isa_elemTy :: nat
  isa_elemBits :: i32

record Load =
  ld_shape :: "i64 list"
  ld_elemTy :: nat
  ld_encoding :: "nat option"
  ld_ptr :: "value"
  ld_mask :: "value option"
  ld_other :: "value option"
  ld_boundaryCheck :: "attribute option"
  ld_padding :: "attribute option"
  ld_cache :: nat
  ld_evict :: nat
  ld_isVolatile :: bool
  ld_result :: "value"
  ld_attrs :: named_attrs

record InsertSlice =
  ins_source :: "value"
  ins_dest :: "value"
  ins_offsets :: "OpFoldResult list"
  ins_sizes :: "OpFoldResult list"
  ins_strides :: "OpFoldResult list"
  ins_result :: "value"
  ins_attrs :: named_attrs

record InsertSliceTMA =
  tma_mask :: "value option"
  tma_operands :: "value list"
  tma_result :: "value"
  tma_attrs :: named_attrs

datatype operation =
    InsertSliceAsyncOp InsertSliceAsync
  | LoadOp Load
  | InsertSliceOp InsertSlice
  | AsyncCommitGroupOp named_attrs
  | AsyncWaitOp i32 named_attrs
  | InsertSliceTMAOp InsertSliceTMA
  | SplatOp "value" "value"
  | ClusterCTAIdOp "value"
  | ConstantI32Op "value" i32
  | OtherOp string "value list" "value list" named_attrs

text \<open>
  The operands and results of an operation (\<open>SplatOp result src\<close>, \<open>OtherOp name results
  operands attrs\<close>), and the renaming of operands that \<^verbatim>\<open>replaceAllUsesWith\<close> performs.
\<close>

fun mapFoldResult :: "(value \<Rightarrow> value) \<Rightarrow> OpFoldResult \<Rightarrow> OpFoldResult" where
  "mapFoldResult f (OfValue v) = OfValue (f v)"
| "mapFoldResult f (I64IntegerAttr k) = I64IntegerAttr k"

fun foldResultValues :: "OpFoldResult \<Rightarrow> value list" where
  "foldResultValues (OfValue v) = [v]"
| "foldResultValues (I64IntegerAttr k) = []"

fun optionalOperand :: "value option \<Rightarrow> value list" where
  "optionalOperand None = []"
| "optionalOperand (Some v) = [v]"

fun opOperands :: "operation \<Rightarrow> value list" where
  "opOperands (InsertSliceAsyncOp a) =
     [isa_src a, isa_dst a, isa_index a] @ optionalOperand (isa_mask a) @ optionalOperand (isa_other a)"
| "opOperands (LoadOp l) = [ld_ptr l] @ optionalOperand (ld_mask l) @ optionalOperand (ld_other l)"
| "opOperands (InsertSliceOp i) =
     [ins_source i, ins_dest i] @
     concat (map foldResultValues (ins_offsets i @ ins_sizes i @ ins_strides i))"
| "opOperands (AsyncCommitGroupOp as) = []"
| "opOperands (AsyncWaitOp n as) = []"
| "opOperands (InsertSliceTMAOp t) = tma_operands t @ optionalOperand (tma_mask t)"
| "opOperands (SplatOp r src) = [src]"
| "opOperands (ClusterCTAIdOp r) = []"
| "opOperands (ConstantI32Op r c) = []"
| "opOperands (OtherOp n rs os as) = os"

fun opResults :: "operation \<Rightarrow> value list" where
  "opResults (InsertSliceAsyncOp a) = [isa_result a]"
| "opResults (LoadOp l) = [ld_result l]"
| "opResults (InsertSliceOp i) = [ins_result i]"
| "opResults (AsyncCommitGroupOp as) = []"
| "opResults (AsyncWaitOp n as) = []"
| "opResults (InsertSliceTMAOp t) = [tma_result t]"
| "opResults (SplatOp r src) = [r]"
| "opResults (ClusterCTAIdOp r) = [r]"
| "opResults (ConstantI32Op r c) = [r]"
| "opResults (OtherOp n rs os as) = rs"

fun mapOperands :: "(value \<Rightarrow> value) \<Rightarrow> operation \<Rightarrow> operation" where
  "mapOperands f (InsertSliceAsyncOp a) =
     InsertSliceAsyncOp (a \<lparr> isa_src := f (isa_src a), isa_dst := f (isa_dst a),
                             isa_index := f (isa_index a),
                             isa_mask := map_option f (isa_mask a),
                             isa_other := map_option f (isa_other a) \<rparr>)"
| "mapOperands f (LoadOp l) =
     LoadOp (l \<lparr> ld_ptr := f (ld_ptr l), ld_mask := map_option f (ld_mask l),
                 ld_other := map_option f (ld_other l) \<rparr>)"
| "mapOperands f (InsertSliceOp i) =
     InsertSliceOp (i \<lparr> ins_source := f (ins_source i), ins_dest := f (ins_dest i),
                        ins_offsets := map (mapFoldResult f) (ins_offsets i),
                        ins_sizes := map (mapFoldResult f) (ins_sizes i),
                        ins_strides := map (mapFoldResult f) (ins_strides i) \<rparr>)"
| "mapOperands f (AsyncCommitGroupOp as) = AsyncCommitGroupOp as"
| "mapOperands f (AsyncWaitOp n as) = AsyncWaitOp n as"
| "mapOperands f (InsertSliceTMAOp t) =
     InsertSliceTMAOp (t \<lparr> tma_mask := map_option f (tma_mask t),
                           tma_operands := map f (tma_operands t) \<rparr>)"
| "mapOperands f (SplatOp r src) = SplatOp r (f src)"
| "mapOperands f (ClusterCTAIdOp r) = ClusterCTAIdOp r"
| "mapOperands f (ConstantI32Op r c) = ConstantI32Op r c"
| "mapOperands f (OtherOp n rs os as) = OtherOp n rs (map f os) as"

definition replaceAllUsesWith :: "value \<Rightarrow> value \<Rightarrow> operation \<Rightarrow> operation" where
  "replaceAllUsesWith old new = mapOperands (\<lambda>v. if v = old then new else v)"

subsection \<open>The module\<close>

text \<open>
  A module: its attributes, the \<^verbatim>\<open>llvm.mlir.global\<close> operations at the top of its body,
  the operations nested in it in the order a walk visits them, and the next unused value
  number (a created operation takes its result from there).
\<close>

datatype Linkage = External | Internal

record GlobalOp =
  glob_type :: mlir_type
  glob_isConstant :: bool
  glob_linkage :: Linkage
  glob_name :: string
  glob_value :: "attribute option"
  glob_alignment :: nat
  glob_addrSpace :: nat

record ModuleOp = ModuleAttrs +
  globals :: "GlobalOp list"
  ops :: "operation list"
  nextValue :: nat

text \<open>
  What the pass is constructed with and what it asks of code outside this file: the
  target; for the compute capability, the byte widths
  \<^verbatim>\<open>InsertSliceAsyncOp::getEligibleLoadByteWidth\<close> and the two \<^verbatim>\<open>isSupported\<close>
  answers; and the two facts of the axis analysis.
\<close>

record PassConfig =
  cfg_target :: Target
  cfg_eligibleLoadByteWidth :: "i32 list"
  cfg_commitGroupSupported :: bool
  cfg_waitSupported :: bool
  cfg_ptrContiguity :: "value \<Rightarrow> i32"
  cfg_maskAlignment :: "value \<Rightarrow> i32"

subsection \<open>Warp-specialization attributes (\<^verbatim>\<open>addWSNamedAttrs\<close>)\<close>

text \<open>
  \<^verbatim>\<open>
  for (const NamedAttribute attr : attrs)
    if (attr.getName() == "async_agent" || attr.getName() == "agent.mutex_role")
      op->setAttr(attr.getName(), attr.getValue());
  \<close>
  The first argument is the attribute list of \<open>op\<close>, which is returned updated.
\<close>

fun addWSNamedAttrs :: "named_attrs \<Rightarrow> named_attrs \<Rightarrow> named_attrs" where
  "addWSNamedAttrs opAttrs [] = opAttrs"
| "addWSNamedAttrs opAttrs ((name, v) # as) =
     addWSNamedAttrs
       (if name = ''async_agent'' \<or> name = ''agent.mutex_role''
        then setAttr name v opAttrs else opAttrs) as"

subsection \<open>Decomposition of async copies (\<^verbatim>\<open>decomposeInsertSliceAsyncOp\<close>)\<close>

text \<open>
  The byte width of one \<^verbatim>\<open>insert_slice_async\<close>, and the two operations that replace it
  when that width is not eligible: a \<^verbatim>\<open>tt.load\<close> of the source (result \<open>fresh\<close>) and a
  \<^verbatim>\<open>tensor.insert_slice\<close> of the loaded tile into the destination (result \<open>fresh + 1\<close>).
  \<^verbatim>\<open>
  auto offsets = SmallVector<OpFoldResult>(dstTy.getRank(), intAttr(0));
  auto sizes = SmallVector<OpFoldResult>(dstTy.getRank(), intAttr(1));
  auto strides = SmallVector<OpFoldResult>(dstTy.getRank(), intAttr(1));
  offsets[axis] = insertSliceAsyncOp.getIndex();
  for (size_t i = 0; i < dstTy.getRank(); i++) {
    if (i != axis)
      sizes[i] = intAttr(dstTy.getShape()[i]);
  }
  \<close>
  The axis of a verified operation is below the rank.
\<close>

definition loadByteWidth :: "PassConfig \<Rightarrow> InsertSliceAsync \<Rightarrow> i32" where
  "loadByteWidth cfg a =
     byteWidth (cfg_ptrContiguity cfg (isa_src a))
       (map_option (cfg_maskAlignment cfg) (isa_mask a)) (isa_dstVec a) (isa_elemBits a)"

definition createLoad :: "InsertSliceAsync \<Rightarrow> value \<Rightarrow> Load" where
  "createLoad a fresh =
     \<lparr> ld_shape = isa_srcShape a, ld_elemTy = isa_elemTy a, ld_encoding = isa_srcBlocked a,
       ld_ptr = isa_src a, ld_mask = isa_mask a, ld_other = isa_other a,
       ld_boundaryCheck = None, ld_padding = None,
       ld_cache = isa_cache a, ld_evict = isa_evict a, ld_isVolatile = isa_isVolatile a,
       ld_result = fresh,
       ld_attrs = addWSNamedAttrs [] (isa_attrs a) \<rparr>"

definition createInsertSlice :: "InsertSliceAsync \<Rightarrow> value \<Rightarrow> value \<Rightarrow> InsertSlice" where
  "createInsertSlice a loadOp fresh =
     (let rank = length (isa_dstShape a);
          offsets = (replicate rank (I64IntegerAttr 0)) [isa_axis a := OfValue (isa_index a)];
          sizes = map (\<lambda>i. if i \<noteq> isa_axis a then I64IntegerAttr (isa_dstShape a ! i)
                             else I64IntegerAttr 1) [0..<rank];
          strides = replicate rank (I64IntegerAttr 1)
      in \<lparr> ins_source = loadOp, ins_dest = isa_dst a,
            ins_offsets = offsets, ins_sizes = sizes, ins_strides = strides,
            ins_result = fresh,
            ins_attrs = addWSNamedAttrs [] (isa_attrs a) \<rparr>)"

text \<open>
  The first walk. \<open>visited\<close> are the operations before the one being visited, \<open>rest\<close>
  those from it on; \<open>decomposed\<close> is the flag of the source and \<open>nv\<close> the next unused
  value. An operation of eligible byte width is left alone; another is replaced by the
  two new operations, inserted before it, its uses everywhere renamed to the result of
  the slice insertion, and the flag is set.
  \<^verbatim>\<open>
  if (triton::gpu::InsertSliceAsyncOp::getEligibleLoadByteWidth(computeCapability)
          .contains(byteWidth)) {
    return;
  }
  auto tmpTy = RankedTensorType::get(srcTy.getShape(), resElemTy, srcBlocked);
  auto loadOp = builder.create<triton::LoadOp>(
      insertSliceAsyncOp.getLoc(), tmpTy, insertSliceAsyncOp.getSrc(),
      insertSliceAsyncOp.getMask(), insertSliceAsyncOp.getOther(),
      /*boundaryCheck=*/nullptr, /*padding=*/nullptr,
      insertSliceAsyncOp.getCache(), insertSliceAsyncOp.getEvict(),
      insertSliceAsyncOp.getIsVolatile());
  addWSNamedAttrs(loadOp, insertSliceAsyncOp->getAttrs());
  ...
  auto insertSliceOp = builder.create<tensor::InsertSliceOp>(
      insertSliceAsyncOp.getLoc(), loadOp, insertSliceAsyncOp.getDst(),
      offsets, sizes, strides);
  addWSNamedAttrs(insertSliceOp, insertSliceAsyncOp->getAttrs());
  insertSliceAsyncOp.replaceAllUsesWith(insertSliceOp.getResult());
  insertSliceAsyncOp.erase();
  decomposed = true;
  \<close>
\<close>

function decomposeWalk ::
  "PassConfig \<Rightarrow> operation list \<Rightarrow> operation list \<Rightarrow> bool \<Rightarrow> nat
     \<Rightarrow> operation list \<times> bool \<times> nat" where
  "decomposeWalk cfg visited [] decomposed nv = (visited, decomposed, nv)"
| "decomposeWalk cfg visited (op # rest) decomposed nv =
     (case op of
        InsertSliceAsyncOp a \<Rightarrow>
          (if loadByteWidth cfg a \<in> set (cfg_eligibleLoadByteWidth cfg)
           then decomposeWalk cfg (visited @ [op]) rest decomposed nv
           else
             (let loadOp = createLoad a nv;
                  insertSliceOp = createInsertSlice a (ld_result loadOp) (nv + 1);
                  rauw = replaceAllUsesWith (isa_result a) (ins_result insertSliceOp)
              in decomposeWalk cfg
                   (map rauw (visited @ [LoadOp loadOp, InsertSliceOp insertSliceOp]))
                   (map rauw rest) True (nv + 2)))
      | _ \<Rightarrow> decomposeWalk cfg (visited @ [op]) rest decomposed nv)"
  by pat_completeness auto
termination
  by (relation "measure (\<lambda>(cfg, visited, rest, decomposed, nv). length rest)") auto

text \<open>
  The second and third walks.
  \<^verbatim>\<open>
  mod.walk([&](triton::gpu::AsyncCommitGroupOp asyncCommitGroupOp) -> void {
    if (!triton::gpu::AsyncCommitGroupOp::isSupported(computeCapability))
      asyncCommitGroupOp.erase();
  });
  mod.walk([&](triton::gpu::AsyncWaitOp asyncWaitOp) -> void {
    if (!triton::gpu::AsyncWaitOp::isSupported(computeCapability)) {
      asyncWaitOp.erase();
    } else if (decomposed) {
      OpBuilder builder(asyncWaitOp);
      auto newWaitOp = builder.create<triton::gpu::AsyncWaitOp>(asyncWaitOp.getLoc(), 0);
      addWSNamedAttrs(newWaitOp, asyncWaitOp->getAttrs());
      asyncWaitOp.erase();
    }
  });
  \<close>
\<close>

fun commitGroupWalk :: "PassConfig \<Rightarrow> operation list \<Rightarrow> operation list" where
  "commitGroupWalk cfg [] = []"
| "commitGroupWalk cfg (AsyncCommitGroupOp as # rest) =
     (if \<not> cfg_commitGroupSupported cfg then commitGroupWalk cfg rest
      else AsyncCommitGroupOp as # commitGroupWalk cfg rest)"
| "commitGroupWalk cfg (op # rest) = op # commitGroupWalk cfg rest"

fun waitWalk :: "PassConfig \<Rightarrow> bool \<Rightarrow> operation list \<Rightarrow> operation list" where
  "waitWalk cfg decomposed [] = []"
| "waitWalk cfg decomposed (AsyncWaitOp n as # rest) =
     (if \<not> cfg_waitSupported cfg then waitWalk cfg decomposed rest
      else if decomposed
        then AsyncWaitOp 0 (addWSNamedAttrs [] as) # waitWalk cfg decomposed rest
      else AsyncWaitOp n as # waitWalk cfg decomposed rest)"
| "waitWalk cfg decomposed (op # rest) = op # waitWalk cfg decomposed rest"

text \<open>The value of the flag \<^verbatim>\<open>decomposed\<close> after the first walk, and the whole step.\<close>

definition decomposedFlag :: "PassConfig \<Rightarrow> ModuleOp \<Rightarrow> bool" where
  "decomposedFlag cfg m =
     (cfg_target cfg = GENX \<and>
      fst (snd (decomposeWalk cfg [] (ops m) False (nextValue m))))"

definition decomposeInsertSliceAsyncOp :: "PassConfig \<Rightarrow> ModuleOp \<Rightarrow> ModuleOp" where
  "decomposeInsertSliceAsyncOp cfg m =
     (if cfg_target cfg \<noteq> GENX then m
      else
        (case decomposeWalk cfg [] (ops m) False (nextValue m) of
           (ops1, decomposed, nv) \<Rightarrow>
             m \<lparr> ops := waitWalk cfg decomposed (commitGroupWalk cfg ops1),
                 nextValue := nv \<rparr>))"

subsection \<open>Folding a splat mask (\<^verbatim>\<open>FoldSplatMaskInInsertAsync\<close> and the cleanup)\<close>

text \<open>
  \<^verbatim>\<open>
  auto insertOp = cast<triton::nvidia_gpu::InsertSliceTMAOp>(op);
  if (!insertOp.getMask())
    return failure();
  auto splatOp = insertOp.getMask().getDefiningOp<triton::SplatOp>();
  if (!splatOp)
    return failure();
  rewriter.modifyOpInPlace(insertOp, [&]() {
    insertOp.getMaskMutable().assign(splatOp->getOperand(0));
  });
  return mlir::success();
  \<close>
  The pattern is registered for \<^verbatim>\<open>InsertSliceTMAOp\<close> only. The defining operation of a
  value is the operation of the module that has it among its results.
\<close>

definition definingOp :: "operation list \<Rightarrow> value \<Rightarrow> operation option" where
  "definingOp os v = find (\<lambda>op. v \<in> set (opResults op)) os"

definition FoldSplatMaskInInsertAsync :: "operation list \<Rightarrow> operation \<Rightarrow> failure + operation" where
  "FoldSplatMaskInInsertAsync os op =
     (case op of
        InsertSliceTMAOp insertOp \<Rightarrow>
          (case tma_mask insertOp of
             None \<Rightarrow> Inl failure
           | Some maskValue \<Rightarrow>
               (case definingOp os maskValue of
                  Some (SplatOp r src) \<Rightarrow>
                    Inr (InsertSliceTMAOp (insertOp \<lparr> tma_mask := Some src \<rparr>))
                | _ \<Rightarrow> Inl failure))
      | _ \<Rightarrow> Inl failure)"

text \<open>
  The cleanup collects the \<^verbatim>\<open>InsertSliceTMAOp\<close>s of the module and gives them to
  \<^verbatim>\<open>applyOpPatternsAndFold\<close>, which applies the pattern to each of them again and again
  until it fails. The greedy driver has no bound on the number of rewrites: the model
  gives it fuel for every operation, and \<open>None\<close> says the fuel did not suffice.
  The operation is named by its position in the module.
\<close>

fun applyPatternGreedily :: "nat \<Rightarrow> operation list \<Rightarrow> nat \<Rightarrow> operation list option" where
  "applyPatternGreedily 0 os i = None"
| "applyPatternGreedily (Suc fuel) os i =
     (if i < length os then
        (case FoldSplatMaskInInsertAsync os (os ! i) of
           Inl _ \<Rightarrow> Some os
         | Inr op' \<Rightarrow> applyPatternGreedily fuel (os [i := op']) i)
      else Some os)"

fun applyOpPatternsAndFold :: "nat \<Rightarrow> nat list \<Rightarrow> operation list \<Rightarrow> operation list option" where
  "applyOpPatternsAndFold fuel [] os = Some os"
| "applyOpPatternsAndFold fuel (i # worklist) os =
     (case applyPatternGreedily fuel os i of
        None \<Rightarrow> None
      | Some os' \<Rightarrow> applyOpPatternsAndFold fuel worklist os')"

fun isInsertSliceTMA :: "operation \<Rightarrow> bool" where
  "isInsertSliceTMA (InsertSliceTMAOp t) = True"
| "isInsertSliceTMA op = False"

definition insertSlices :: "operation list \<Rightarrow> nat list" where
  "insertSlices os = filter (\<lambda>i. isInsertSliceTMA (os ! i)) [0..<length os]"

definition cleanup :: "nat \<Rightarrow> ModuleOp \<Rightarrow> ModuleOp option" where
  "cleanup fuel m =
     map_option (\<lambda>os. m \<lparr> ops := os \<rparr>)
       (applyOpPatternsAndFold fuel (insertSlices (ops m)) (ops m))"

text \<open>
  The input of the splat that defines a value, when a splat defines it; and an operation
  with its mask replaced by that input, when it is an \<^verbatim>\<open>InsertSliceTMAOp\<close> with such a mask.
\<close>

definition splatSrc :: "operation list \<Rightarrow> value \<Rightarrow> value option" where
  "splatSrc os v = (case definingOp os v of Some (SplatOp r src) \<Rightarrow> Some src | _ \<Rightarrow> None)"

definition foldedMask :: "operation list \<Rightarrow> operation \<Rightarrow> operation" where
  "foldedMask os op =
     (case op of
        InsertSliceTMAOp t \<Rightarrow>
          (case tma_mask t of
             None \<Rightarrow> op
           | Some m \<Rightarrow>
               (case splatSrc os m of
                  None \<Rightarrow> op
                | Some s \<Rightarrow> InsertSliceTMAOp (t \<lparr> tma_mask := Some s \<rparr>)))
      | _ \<Rightarrow> op)"

subsection \<open>The shared-memory global (\<^verbatim>\<open>initSharedMemory\<close>)\<close>

text \<open>
  \<^verbatim>\<open>
  OpBuilder b(mod.getBodyRegion());
  auto elemTy = typeConverter.convertType(b.getIntegerType(8));
  switch (target) {
  case Target::NVVM:
  case Target::ROCDL: {
    auto arrayTy = LLVM::LLVMArrayType::get(elemTy, 0);
    auto global = b.create<LLVM::GlobalOp>(
        loc, arrayTy, /*isConstant=*/false, LLVM::Linkage::External,
        "global_smem", /*value=*/Attribute(), /*alignment=*/16,
        static_cast<unsigned>(NVVM::NVVMMemorySpace::kSharedMemorySpace));
  } break;
  case Target::GENX: {
  } break;
  }
  \<close>
  The builder inserts at the start of the module's body. The NVVM dialect's shared
  memory space is number 3. The converter always converts a builtin integer type.
\<close>

definition kSharedMemorySpace :: nat where
  "kSharedMemorySpace = 3"

definition initSharedMemory :: "(nat \<Rightarrow> mlir_type option) \<Rightarrow> Target \<Rightarrow> ModuleOp \<Rightarrow> ModuleOp" where
  "initSharedMemory tc target' m =
     (case target' of
        GENX \<Rightarrow> m
      | _ \<Rightarrow>
          (case convertType tc (IntegerType 8) of
             None \<Rightarrow> m
           | Some elemTy \<Rightarrow>
               m \<lparr> globals :=
                     \<lparr> glob_type = LLVMArrayType elemTy 0, glob_isConstant = False,
                       glob_linkage = External, glob_name = ''global_smem'',
                       glob_value = None, glob_alignment = 16,
                       glob_addrSpace = kSharedMemorySpace \<rparr> # globals m \<rparr>))"

text \<open>The global that \<^verbatim>\<open>initSharedMemory\<close> declares, with an 8-bit element type.\<close>

definition smemGlobal :: GlobalOp where
  "smemGlobal = \<lparr> glob_type = LLVMArrayType (IntegerType 8) 0, glob_isConstant = False,
       glob_linkage = External, glob_name = ''global_smem'', glob_value = None,
       glob_alignment = 16, glob_addrSpace = 3 \<rparr>"

subsection \<open>Folding the cluster CTA id\<close>

text \<open>
  \<^verbatim>\<open>
  if (numCTAs == 1) {
    mod.walk([](triton::nvgpu::ClusterCTAIdOp id) {
      OpBuilder b(id);
      Value zero = LLVM::createConstantI32(id->getLoc(), b, 0);
      id.replaceAllUsesWith(zero);
    });
  }
  \<close>
  The constant is created before the operation that is visited, with the next unused
  value as its result.
\<close>

function foldCTAIdWalk ::
  "operation list \<Rightarrow> operation list \<Rightarrow> nat \<Rightarrow> operation list \<times> nat" where
  "foldCTAIdWalk visited [] nv = (visited, nv)"
| "foldCTAIdWalk visited (op # rest) nv =
     (case op of
        ClusterCTAIdOp idResult \<Rightarrow>
          (let zero = nv;
               rauw = replaceAllUsesWith idResult zero
           in foldCTAIdWalk (map rauw (visited @ [ConstantI32Op zero 0, op]))
                (map rauw rest) (nv + 1))
      | _ \<Rightarrow> foldCTAIdWalk (visited @ [op]) rest nv)"
  by pat_completeness auto
termination
  by (relation "measure (\<lambda>(visited, rest, nv). length rest)") auto

definition foldClusterCTAId :: "i32 \<Rightarrow> ModuleOp \<Rightarrow> ModuleOp" where
  "foldClusterCTAId nCTAs m =
     (if nCTAs = 1 then
        (case foldCTAIdWalk [] (ops m) (nextValue m) of
           (os, nv) \<Rightarrow> m \<lparr> ops := os, nextValue := nv \<rparr>)
      else m)"

text \<open>A constant that the walk created: its result is not below the bound \<open>b\<close>.\<close>

fun isNewConstant :: "nat \<Rightarrow> operation \<Rightarrow> bool" where
  "isNewConstant b (ConstantI32Op z c) = (b \<le> z)"
| "isNewConstant b op = False"

subsection \<open>The pass (\<^verbatim>\<open>runOnOperation\<close>)\<close>

text \<open>
  The steps of the pass in their order. The shared-memory allocation with the barrier
  analysis, and the three applications of \<^verbatim>\<open>applyPartialConversion\<close> (functions; calls
  and returns; everything else) run drivers and patterns from outside this file over the
  whole module: they are the parameter \<open>st\<close>, \<open>None\<close> being a failed conversion. A
  failure makes the pass fail (\<open>None\<close>); after a failed cleanup the source signals the
  failure and goes on, and the pass has failed all the same. The module's CTA count is
  read before the first step. The scans that only read the module (the tensor-pointer
  map, the axis analysis) are left out.
\<close>

record Stages =
  st_allocationAndMembar :: "ModuleOp \<Rightarrow> ModuleOp"
  st_lowerFunctions :: "ModuleOp \<Rightarrow> ModuleOp option"
  st_convertCallAndRet :: "ModuleOp \<Rightarrow> ModuleOp option"
  st_mainConversion :: "ModuleOp \<Rightarrow> ModuleOp option"

definition runOnOperation ::
  "Stages \<Rightarrow> PassConfig \<Rightarrow> (nat \<Rightarrow> mlir_type option) \<Rightarrow> nat \<Rightarrow> ModuleOp \<Rightarrow> ModuleOp option" where
  "runOnOperation st cfg tc fuel m =
     (let nCTAs = numCTAs m;
          m1 = decomposeInsertSliceAsyncOp cfg m;
          m2 = st_allocationAndMembar st m1
      in case cleanup fuel m2 of
           None \<Rightarrow> None
         | Some m3 \<Rightarrow>
             (case st_lowerFunctions st m3 of
                None \<Rightarrow> None
              | Some m4 \<Rightarrow>
                  (case st_convertCallAndRet st (initSharedMemory tc (cfg_target cfg) m4) of
                     None \<Rightarrow> None
                   | Some m5 \<Rightarrow>
                       (case st_mainConversion st m5 of
                          None \<Rightarrow> None
                        | Some m6 \<Rightarrow> Some (foldClusterCTAId nCTAs m6)))))"

text \<open>Whether a module has the global that \<^verbatim>\<open>initSharedMemory\<close> declares.\<close>

definition hasGlobalSmem :: "ModuleOp \<Rightarrow> bool" where
  "hasGlobalSmem m =
     list_ex (\<lambda>g. glob_name g = ''global_smem'' \<and> glob_type g = LLVMArrayType (IntegerType 8) 0
                  \<and> glob_alignment g = 16) (globals m)"

text \<open>The attributes of an operation, and the number of async copies in a list.\<close>

fun opAttrs :: "operation \<Rightarrow> named_attrs" where
  "opAttrs (InsertSliceAsyncOp a) = isa_attrs a"
| "opAttrs (LoadOp l) = ld_attrs l"
| "opAttrs (InsertSliceOp i) = ins_attrs i"
| "opAttrs (AsyncCommitGroupOp as) = as"
| "opAttrs (AsyncWaitOp n as) = as"
| "opAttrs (InsertSliceTMAOp t) = tma_attrs t"
| "opAttrs (SplatOp r src) = []"
| "opAttrs (ClusterCTAIdOp r) = []"
| "opAttrs (ConstantI32Op r c) = []"
| "opAttrs (OtherOp n rs os as) = as"

fun isInsertSliceAsync :: "operation \<Rightarrow> bool" where
  "isInsertSliceAsync (InsertSliceAsyncOp a) = True"
| "isInsertSliceAsync op = False"

definition numAsync :: "operation list \<Rightarrow> nat" where
  "numAsync xs = length (filter isInsertSliceAsync xs)"

text \<open>The pending counts of the wait markers in a list of operations.\<close>

fun waitCounts :: "operation list \<Rightarrow> i32 list" where
  "waitCounts [] = []"
| "waitCounts (AsyncWaitOp n as # rest) = n # waitCounts rest"
| "waitCounts (op # rest) = waitCounts rest"

subsection \<open>Concrete inputs\<close>

text \<open>
  Inputs at which the definitions are evaluated below: an instance of the GENX attribute
  names (in the dialect's namespace), a type converter that knows two mid-level types,
  modules, functions and calls.
\<close>

definition genx :: GENXDialect where
  "genx = \<lparr> KernelFuncAttrName = ''genx.kernel'',
            MaxWorkGroupSizeAttrName = ''genx.max_work_group_size'',
            ReqdSubGroupSizeAttrName = ''genx.intel_reqd_sub_group_size'' \<rparr>"

definition tc0 :: "nat \<Rightarrow> mlir_type option" where
  "tc0 k = (if k = 0 then Some (LLVMPointerType 1)
            else if k = 1 then Some (LLVMStructType [IntegerType 32, IntegerType 32])
            else None)"

definition module64 :: ModuleAttrs where
  "module64 = \<lparr> numWarps = 4, numCTAs = 1, threadsPerWarp = 64, numWarpGroupsPerCTA = None \<rparr>"

definition module2 :: ModuleAttrs where
  "module2 = \<lparr> numWarps = 4, numCTAs = 1, threadsPerWarp = 16, numWarpGroupsPerCTA = Some 2 \<rparr>"

definition kernel0 :: FuncOp where
  "kernel0 = \<lparr> sym_name = ''kernel'', isKernel = True, inputs = [TritonType 0, IntegerType 32],
               results = [], attrs = [], argAttrs = [DictionaryAttr [], DictionaryAttr []],
               blockArgs = [TritonType 0, IntegerType 32] \<rparr>"

definition kernel1 :: FuncOp where
  "kernel1 = \<lparr> sym_name = ''kernel'', isKernel = True, inputs = [TritonType 0],
               results = [IntegerType 32], attrs = [], argAttrs = [DictionaryAttr []],
               blockArgs = [TritonType 0] \<rparr>"

definition llkernel1 :: LLVMFuncOp where
  "llkernel1 = \<lparr> llName = ''kernel'', llInputs = [LLVMPointerType 1],
       llResults = [IntegerType 32],
       llAttrs = [(''genx.kernel'', IntegerAttr 32 1),
                  (''genx.max_work_group_size'', I32ArrayAttr [64, 1, 1]),
                  (''genx.intel_reqd_sub_group_size'', I32ArrayAttr [16])],
       llArgAttrs = [DictionaryAttr []], llBlockArgs = [LLVMPointerType 1] \<rparr>"

definition device0 :: FuncOp where
  "device0 = \<lparr> sym_name = ''callee'', isKernel = False, inputs = [TritonType 0, IntegerType 32],
               results = [IntegerType 32, IntegerType 32], attrs = [],
               argAttrs = [DictionaryAttr [], DictionaryAttr []],
               blockArgs = [TritonType 0, IntegerType 32] \<rparr>"

definition lldevice0 :: LLVMFuncOp where
  "lldevice0 = \<lparr> llName = ''callee'',
       llInputs = [LLVMPointerType 1, IntegerType 32, LLVMPointerType 3],
       llResults = [LLVMStructType [IntegerType 32, IntegerType 32]],
       llAttrs = [(''nvvm.maxntid'', DenseI32ArrayAttr [128]),
                  (''passthrough'', ArrayAttr [StringAttr ''noinline''])],
       llArgAttrs = [DictionaryAttr [], DictionaryAttr [], DictionaryAttr []],
       llBlockArgs = [LLVMPointerType 1, IntegerType 32, LLVMPointerType 3] \<rparr>"

definition device1 :: FuncOp where
  "device1 = \<lparr> sym_name = ''callee1'', isKernel = False, inputs = [IntegerType 32],
               results = [IntegerType 32], attrs = [], argAttrs = [DictionaryAttr []],
               blockArgs = [IntegerType 32] \<rparr>"

definition lldevice1 :: LLVMFuncOp where
  "lldevice1 = \<lparr> llName = ''callee1'',
       llInputs = [IntegerType 32, LLVMPointerType 3],
       llResults = [IntegerType 32],
       llAttrs = [(''genx.max_work_group_size'', I32ArrayAttr [64, 1, 1]),
                  (''genx.intel_reqd_sub_group_size'', I32ArrayAttr [16]),
                  (''passthrough'', ArrayAttr [StringAttr ''noinline''])],
       llArgAttrs = [DictionaryAttr [], DictionaryAttr []],
       llBlockArgs = [IntegerType 32, LLVMPointerType 3] \<rparr>"

definition call2 :: CallOp where
  "call2 = \<lparr> callId = 5,
             callOperands = [Value 8 (LLVMPointerType 1), Value 9 (IntegerType 32)],
             callResultTypes = [IntegerType 32, IntegerType 32], callAttrs = [] \<rparr>"

definition llcall2 :: LLVMCallOp where
  "llcall2 = \<lparr> llCallId = 5,
       llCallResultTypes = [LLVMStructType [IntegerType 32, IntegerType 32]],
       llCallOperands = [Value 8 (LLVMPointerType 1), Value 9 (IntegerType 32),
                         StackPointer ''callee''],
       llCallAttrs = [] \<rparr>"

definition ret1 :: ReturnOp where
  "ret1 = \<lparr> retOperands = [Value 1 (IntegerType 32)], retAttrs = [] \<rparr>"

definition ret2 :: ReturnOp where
  "ret2 = \<lparr> retOperands = [Value 1 (IntegerType 32), Value 2 (IntegerType 32)], retAttrs = [] \<rparr>"

definition cfg0 :: PassConfig where
  "cfg0 = \<lparr> cfg_target = GENX, cfg_eligibleLoadByteWidth = [], cfg_commitGroupSupported = False,
            cfg_waitSupported = True, cfg_ptrContiguity = (\<lambda>v. 4), cfg_maskAlignment = (\<lambda>v. 2) \<rparr>"

definition cfgU :: PassConfig where
  "cfgU = cfg0 \<lparr> cfg_waitSupported := False \<rparr>"

definition cfgR :: PassConfig where
  "cfgR = \<lparr> cfg_target = ROCDL, cfg_eligibleLoadByteWidth = [],
            cfg_commitGroupSupported = False, cfg_waitSupported = False,
            cfg_ptrContiguity = (\<lambda>v. 4), cfg_maskAlignment = (\<lambda>v. 2) \<rparr>"

definition async0 :: InsertSliceAsync where
  "async0 = \<lparr> isa_src = 1, isa_dst = 2, isa_index = 3, isa_mask = Some 4, isa_other = None,
       isa_cache = 1, isa_evict = 1, isa_isVolatile = False, isa_axis = 0, isa_result = 5,
       isa_attrs = [(''agent.mutex_role'', IntegerAttr 32 1), (''async_agent'', IntegerAttr 32 0),
                    (''axis'', IntegerAttr 32 0)],
       isa_srcShape = [128], isa_srcBlocked = Some 0, isa_dstShape = [2, 128], isa_dstVec = 4,
       isa_elemTy = 0, isa_elemBits = 16 \<rparr>"

definition module0 :: ModuleOp where
  "module0 = \<lparr> numWarps = 4, numCTAs = 1, threadsPerWarp = 16, numWarpGroupsPerCTA = None,
       globals = [],
       ops = [InsertSliceAsyncOp async0, AsyncCommitGroupOp [],
              AsyncWaitOp 2 [(''async_agent'', IntegerAttr 32 0)],
              OtherOp ''tt.use'' [6] [5] []],
       nextValue = 10 \<rparr>"

definition decomposed0 :: ModuleOp where
  "decomposed0 = \<lparr> numWarps = 4, numCTAs = 1, threadsPerWarp = 16,
    numWarpGroupsPerCTA = None, globals = [],
    ops =
      [LoadOp
        \<lparr>ld_shape = [128], ld_elemTy = 0, ld_encoding = Some 0, ld_ptr = 1,
           ld_mask = Some 4, ld_other = None, ld_boundaryCheck = None,
           ld_padding = None, ld_cache = 1, ld_evict = 1,
           ld_isVolatile = False, ld_result = 10,
           ld_attrs =
             [(''agent.mutex_role'', IntegerAttr 32 1),
              (''async_agent'', IntegerAttr 32 0)]\<rparr>,
       InsertSliceOp
        \<lparr>ins_source = 10, ins_dest = 2,
           ins_offsets = [OfValue 3, I64IntegerAttr 0],
           ins_sizes = [I64IntegerAttr 1, I64IntegerAttr 128],
           ins_strides = [I64IntegerAttr 1, I64IntegerAttr 1],
           ins_result = 11,
           ins_attrs =
             [(''agent.mutex_role'', IntegerAttr 32 1),
              (''async_agent'', IntegerAttr 32 0)]\<rparr>,
       AsyncWaitOp 0 [(''async_agent'', IntegerAttr 32 0)],
       OtherOp ''tt.use'' [6] [11] []],
    nextValue = 12\<rparr>"

definition moduleC :: ModuleOp where
  "moduleC = \<lparr> numWarps = 4, numCTAs = 1, threadsPerWarp = 32, numWarpGroupsPerCTA = None,
       globals = [],
       ops = [ConstantI32Op 1 7, ClusterCTAIdOp 2, OtherOp ''llvm.add'' [3] [2, 1] [],
              OtherOp ''llvm.mul'' [4] [3, 2] []],
       nextValue = 5 \<rparr>"

definition moduleC' :: ModuleOp where
  "moduleC' = \<lparr> numWarps = 4, numCTAs = 1, threadsPerWarp = 32, numWarpGroupsPerCTA = None,
       globals = [],
       ops = [ConstantI32Op 1 7, ConstantI32Op 5 0, ClusterCTAIdOp 2,
              OtherOp ''llvm.add'' [3] [5, 1] [], OtherOp ''llvm.mul'' [4] [3, 5] []],
       nextValue = 6 \<rparr>"

definition moduleT :: ModuleOp where
  "moduleT = \<lparr> numWarps = 4, numCTAs = 1, threadsPerWarp = 32, numWarpGroupsPerCTA = None,
       globals = [],
       ops = [SplatOp 2 1,
              InsertSliceTMAOp \<lparr> tma_mask = Some 2, tma_operands = [3, 4], tma_result = 5,
                                 tma_attrs = [] \<rparr>,
              InsertSliceTMAOp \<lparr> tma_mask = None, tma_operands = [3, 5], tma_result = 6,
                                 tma_attrs = [] \<rparr>,
              InsertSliceTMAOp \<lparr> tma_mask = Some 7, tma_operands = [3, 6], tma_result = 8,
                                 tma_attrs = [] \<rparr>],
       nextValue = 9 \<rparr>"

definition moduleT' :: ModuleOp where
  "moduleT' = \<lparr> numWarps = 4, numCTAs = 1, threadsPerWarp = 32, numWarpGroupsPerCTA = None,
       globals = [],
       ops = [SplatOp 2 1,
              InsertSliceTMAOp \<lparr> tma_mask = Some 1, tma_operands = [3, 4], tma_result = 5,
                                 tma_attrs = [] \<rparr>,
              InsertSliceTMAOp \<lparr> tma_mask = None, tma_operands = [3, 5], tma_result = 6,
                                 tma_attrs = [] \<rparr>,
              InsertSliceTMAOp \<lparr> tma_mask = Some 7, tma_operands = [3, 6], tma_result = 8,
                                 tma_attrs = [] \<rparr>],
       nextValue = 9 \<rparr>"

definition stages0 :: Stages where
  "stages0 = \<lparr> st_allocationAndMembar = (\<lambda>m. m), st_lowerFunctions = Some,
               st_convertCallAndRet = Some, st_mainConversion = Some \<rparr>"

definition cfgN :: PassConfig where
  "cfgN = \<lparr> cfg_target = NVVM, cfg_eligibleLoadByteWidth = [4, 8, 16],
            cfg_commitGroupSupported = True, cfg_waitSupported = True,
            cfg_ptrContiguity = (\<lambda>v. 4), cfg_maskAlignment = (\<lambda>v. 4) \<rparr>"

section \<open>Properties\<close>

subsection \<open>Vector width and byte width\<close>

lemma spec_vec_eq_minVec:
  "1 < outVec \<Longrightarrow> spec_vec c m outVec = minVec c m outVec"
  by (cases m) (simp_all add: spec_vec_def minVec_def inVec_def min.commute min.left_commute)

text \<open>
  C4, as the specification states it, fails: a destination layout of vector width 1 does
  not bound the width. With contiguity 4, no mask and 32-bit elements the pass computes
  16 bytes, the specification's formula 4.
\<close>

theorem byteWidth_spec_counterexample:
  "byteWidth 4 None 1 32 = 16 \<and> spec_byteWidth 4 None 1 32 = 4
   \<and> minVec 4 None 1 = 4 \<and> spec_vec 4 None 1 = 1"
  by (simp add: byteWidth_def spec_byteWidth_def minVec_def inVec_def spec_vec_def)

text \<open>
  C4 (amended): the width is the source contiguity, lowered to the mask alignment when a
  mask is present, and lowered to the destination layout's vector width only when that
  width exceeds 1; the bit width is capped by the larger of 128 and the element width, so
  for elements of at most 128 bits the byte width is \<open>min(128, bits \<times> width) / 8\<close>.
\<close>

theorem byteWidth_amended:
  "minVec c m outVec = (if 1 < outVec then spec_vec c m outVec else inVec c m) \<and>
   inVec c None = c \<and> inVec c (Some a) = min a c \<and>
   byteWidth c m outVec elemBits
     = min (max 128 elemBits) (elemBits * minVec c m outVec) div 8 \<and>
   (elemBits \<le> 128 \<longrightarrow> 1 < outVec \<longrightarrow>
      byteWidth c m outVec elemBits = spec_byteWidth c m outVec elemBits) \<and>
   (elemBits \<le> 128 \<longrightarrow> \<not> 1 < outVec \<longrightarrow>
      byteWidth c m outVec elemBits = min 128 (elemBits * inVec c m) div 8)"
proof (intro conjI impI)
  show "minVec c m outVec = (if 1 < outVec then spec_vec c m outVec else inVec c m)"
    by (simp add: spec_vec_eq_minVec) (simp add: minVec_def)
  show "inVec c None = c" and "inVec c (Some a) = min a c"
    by (simp_all add: inVec_def)
  show "byteWidth c m outVec elemBits
          = min (max 128 elemBits) (elemBits * minVec c m outVec) div 8"
    by (simp add: byteWidth_def)
next
  assume "elemBits \<le> 128" and "1 < outVec"
  then show "byteWidth c m outVec elemBits = spec_byteWidth c m outVec elemBits"
    by (simp add: byteWidth_def spec_byteWidth_def spec_vec_eq_minVec max_absorb1)
next
  assume "elemBits \<le> 128" and "\<not> 1 < outVec"
  then show "byteWidth c m outVec elemBits = min 128 (elemBits * inVec c m) div 8"
    by (simp add: byteWidth_def minVec_def max_absorb1)
qed

theorem byteWidth_amended_witness:
  "(32::i32) \<le> 128 \<and> (1::i32) < 4 \<and> byteWidth 8 (Some 2) 4 32 = 8
   \<and> spec_byteWidth 8 (Some 2) 4 32 = 8 \<and> \<not> (1::i32) < 1 \<and> byteWidth 8 (Some 2) 1 32 = 8
   \<and> byteWidth 1 None 1 256 = 32"
  using byteWidth_amended [of 8 "Some 2" 4 2 32] byteWidth_amended [of 8 "Some 2" 1 2 32]
    byteWidth_amended [of 1 None 1 2 256]
  by (simp add: inVec_def spec_byteWidth_def spec_vec_def minVec_def)

subsection \<open>Attributes, converted types and word casts\<close>

lemma map_of_setAttr: "map_of (setAttr n v as) k = (if k = n then Some v else map_of as k)"
  by (induction n v as rule: setAttr.induct) auto

lemma hasAttr_setAttr: "hasAttr (setAttr n v as) k \<longleftrightarrow> k = n \<or> hasAttr as k"
  by (simp add: hasAttr_def map_of_setAttr)

lemma map_of_filter_nodot:
  "CHR ''.'' \<in> set k \<Longrightarrow> map_of (filter (\<lambda>(k, x). CHR ''.'' \<notin> set k) as) k = None"
  by (induction as) auto

lemma those_length: "those xs = Some ys \<Longrightarrow> length ys = length xs"
  by (induction xs arbitrary: ys) (auto split: option.splits)

lemma convertTypes_length: "convertTypes tc ts = Some us \<Longrightarrow> length us = length ts"
  by (auto simp: convertTypes_def dest: those_length)

lemma those_append1: "those (xs @ [Some y]) = map_option (\<lambda>ys. ys @ [y]) (those xs)"
  by (induction xs) (auto split: option.splits simp: option.map_comp comp_def)

lemma convertTypes_snoc_ptr:
  "convertTypes tc (ts @ [ptrTy]) = map_option (\<lambda>us. us @ [ptrTy]) (convertTypes tc ts)"
  by (simp add: convertTypes_def ptrTy_def those_append1)

lemma word_of_int_mod64: "(word_of_int (k mod 2 ^ 64) :: 32 word) = word_of_int k"
proof -
  have "(2::int) ^ 32 dvd 2 ^ 64" by (rule le_imp_power_dvd) simp
  then have "k mod 2 ^ 64 mod 2 ^ 32 = k mod 2 ^ 32" by (rule mod_mod_cancel)
  then show ?thesis by (simp add: word_of_int_eq_iff take_bit_eq_mod)
qed

lemma ucast_mult_down:
  "(ucast ((x :: 64 word) * y) :: 32 word) = ucast x * ucast y"
proof -
  have "(ucast (x * y) :: 32 word) = word_of_int (uint (x * y))" by simp
  also have "\<dots> = word_of_int ((uint x * uint y) mod 2 ^ 64)" by (simp add: uint_word_ariths)
  also have "\<dots> = (word_of_int (uint x * uint y) :: 32 word)" by (rule word_of_int_mod64)
  also have "\<dots> = ucast x * ucast y" by simp
  finally show ?thesis .
qed

lemma ucast_scast_id: "(ucast (scast (a :: 32 word) :: 64 word) :: 32 word) = a"
  by (rule bit_word_eqI) (auto simp add: bit_simps)

lemma effectiveNumWarps_eq:
  "effectiveNumWarps m
     = numWarps m * (case numWarpGroupsPerCTA m of None \<Rightarrow> 1 | Some g \<Rightarrow> ucast g)"
  by (simp add: effectiveNumWarps_def ucast_mult_down ucast_scast_id split: option.splits)

subsection \<open>Function signatures and call sites\<close>

lemma FuncOpConversion_inputs:
  assumes "FuncOpConversion gx tc nW target tpw funcOp = Inr newFuncOp"
  shows "convertTypes tc (if isKernel funcOp then inputs funcOp else inputs funcOp @ [ptrTy])
           = Some (llInputs newFuncOp)"
  using assms
  by (auto simp: FuncOpConversion_def convertFuncOpToLLVMFuncOp_def amendFuncOp_def Let_def
      split: option.splits if_splits)

lemma FuncOpConversion_attrs:
  assumes "FuncOpConversion gx tc nW target tpw funcOp = Inr newFuncOp"
  shows "llAttrs newFuncOp =
     (let as1 = targetAttrs gx nW target tpw (isKernel funcOp) (attrs funcOp)
      in if \<not> isKernel funcOp
         then setAttr ''passthrough'' (ArrayAttr [StringAttr ''noinline'']) as1 else as1)"
  using assms
  by (auto simp: FuncOpConversion_def convertFuncOpToLLVMFuncOp_def amendFuncOp_def Let_def
      split: option.splits if_splits)

text \<open>The function pattern fails only when the type converter has no conversion.\<close>

lemma FuncOpConversion_succeeds:
  assumes "convertTypes tc (inputs funcOp) \<noteq> None"
    and "convertTypes tc (blockArgs funcOp) \<noteq> None"
    and "convertTypes tc (results funcOp) \<noteq> None"
  shows "\<exists>newFuncOp. FuncOpConversion gx tc nW target tpw funcOp = Inr newFuncOp"
proof -
  have "packFunctionResults tc (results funcOp) \<noteq> None"
  proof (cases "results funcOp")
    case Nil
    then show ?thesis by (simp add: packFunctionResults_def convertTypes_def)
  next
    case (Cons t us)
    with assms(3) show ?thesis
      by (cases us) (auto simp: packFunctionResults_def convertTypes_def split: option.splits)
  qed
  with assms(1,2) show ?thesis
    by (auto simp: FuncOpConversion_def convertFuncOpToLLVMFuncOp_def amendFuncOp_def Let_def
        convertTypes_snoc_ptr split: option.splits)
qed

text \<open>
  C1: when the function pattern succeeds on a non-entry function, the lowered function
  has one parameter more than the original, the added one last and a pointer (address
  space 3), the others being the original ones converted; on an entry function it has
  the original parameters converted and none added. When the call pattern succeeds, the
  new call has the original operands followed by exactly one more, of pointer type.
\<close>

theorem signature_and_call_lowering:
  "(FuncOpConversion gx tc nW target tpw funcOp = Inr newFuncOp \<longrightarrow>
      (\<not> isKernel funcOp \<longrightarrow>
         length (llInputs newFuncOp) = length (inputs funcOp) + 1 \<and>
         last (llInputs newFuncOp) = LLVMPointerType 3 \<and>
         convertTypes tc (inputs funcOp) = Some (butlast (llInputs newFuncOp))) \<and>
      (isKernel funcOp \<longrightarrow>
         length (llInputs newFuncOp) = length (inputs funcOp) \<and>
         convertTypes tc (inputs funcOp) = Some (llInputs newFuncOp))) \<and>
   (CallOpConversion tc target caller callOp = Inr (newCallOp, rs) \<longrightarrow>
      length (llCallOperands newCallOp) = length (callOperands callOp) + 1 \<and>
      butlast (llCallOperands newCallOp) = callOperands callOp \<and>
      valType (last (llCallOperands newCallOp)) = LLVMPointerType 3)"
proof (intro conjI impI)
  assume c: "FuncOpConversion gx tc nW target tpw funcOp = Inr newFuncOp"
    and k: "isKernel funcOp"
  from FuncOpConversion_inputs [OF c] k
  show "convertTypes tc (inputs funcOp) = Some (llInputs newFuncOp)" by simp
  then show "length (llInputs newFuncOp) = length (inputs funcOp)" by (rule convertTypes_length)
next
  assume c: "FuncOpConversion gx tc nW target tpw funcOp = Inr newFuncOp"
    and k: "\<not> isKernel funcOp"
  from FuncOpConversion_inputs [OF c] k
  obtain us where us: "convertTypes tc (inputs funcOp) = Some us"
      "llInputs newFuncOp = us @ [ptrTy]"
    by (auto simp: convertTypes_snoc_ptr)
  show "length (llInputs newFuncOp) = length (inputs funcOp) + 1"
    using us convertTypes_length [OF us(1)] by simp
  show "last (llInputs newFuncOp) = LLVMPointerType 3" using us by (simp add: ptrTy_def)
  show "convertTypes tc (inputs funcOp) = Some (butlast (llInputs newFuncOp))" using us by simp
next
  assume c: "CallOpConversion tc target caller callOp = Inr (newCallOp, rs)"
  then have ops: "llCallOperands newCallOp = promoteOperands target caller callOp"
    by (auto simp: CallOpConversion_def convertCallOpToLLVMCallOp_def Let_def
        split: option.splits if_splits)
  show "length (llCallOperands newCallOp) = length (callOperands callOp) + 1"
    by (simp add: ops promoteOperands_def Let_def)
  show "butlast (llCallOperands newCallOp) = callOperands callOp"
    by (simp add: ops promoteOperands_def Let_def)
  show "valType (last (llCallOperands newCallOp)) = LLVMPointerType 3"
    by (simp add: ops promoteOperands_def Let_def getStackPointer_def getSharedMemoryBase_def)
qed

lemma device0_NVVM: "FuncOpConversion genx tc0 4 NVVM 32 device0 = Inr lldevice0"
  by (simp add: FuncOpConversion_def convertFuncOpToLLVMFuncOp_def amendFuncOp_def
      device0_def lldevice0_def tc0_def convertTypes_def targetAttrs_def
      packFunctionResults_def ptrTy_def)

lemma call2_NVVM:
  "CallOpConversion tc0 NVVM lldevice0 call2
     = Inr (llcall2,
            [ExtractValueOp (LLVMCallResult 5 0 (LLVMStructType [IntegerType 32, IntegerType 32])) 0,
             ExtractValueOp (LLVMCallResult 5 0 (LLVMStructType [IntegerType 32, IntegerType 32])) 1])"
  by (simp add: CallOpConversion_def promoteOperands_def convertCallOpToLLVMCallOp_def
      getCallOpResults_def llvmCallResults_def packFunctionResults_def convertTypes_def
      getStackPointer_def call2_def llcall2_def lldevice0_def hasAttr_def
      upt_rec [of 0] upt_rec [of 1])

theorem signature_and_call_lowering_witness:
  "FuncOpConversion genx tc0 4 NVVM 32 device0 = Inr lldevice0 \<and> \<not> isKernel device0 \<and>
   length (llInputs lldevice0) = length (inputs device0) + 1 \<and>
   last (llInputs lldevice0) = LLVMPointerType 3 \<and>
   fst (projr (CallOpConversion tc0 NVVM lldevice0 call2)) = llcall2 \<and>
   length (llCallOperands llcall2) = length (callOperands call2) + 1 \<and>
   valType (last (llCallOperands llcall2)) = LLVMPointerType 3"
  using signature_and_call_lowering [of genx tc0 4 NVVM 32 device0 lldevice0 lldevice0
      call2 llcall2
      "[ExtractValueOp (LLVMCallResult 5 0 (LLVMStructType [IntegerType 32, IntegerType 32])) 0,
        ExtractValueOp (LLVMCallResult 5 0 (LLVMStructType [IntegerType 32, IntegerType 32])) 1]"]
    device0_NVVM call2_NVVM
  by (simp add: device0_def)

subsection \<open>Thread-count attribute\<close>

lemma map_of_targetAttrs_maxntid:
  "target \<noteq> GENX \<Longrightarrow>
   map_of (targetAttrs gx nW target tpw k as) ''nvvm.maxntid''
     = Some (DenseI32ArrayAttr [32 * nW])"
  by (cases target) (simp_all add: targetAttrs_def map_of_setAttr)

lemma map_of_targetAttrs_GENX:
  "MaxWorkGroupSizeAttrName gx \<noteq> KernelFuncAttrName gx \<Longrightarrow>
   map_of (targetAttrs gx nW GENX tpw k as) (MaxWorkGroupSizeAttrName gx)
     = Some (I32ArrayAttr [tpw * nW, 1, 1])"
  by (simp add: targetAttrs_def setDialectAttrs_def)

text \<open>
  C6, as the specification states it, fails: for the targets NVVM and ROCDL the factor is
  the constant 32, not the module's threads-per-warp. A module of 4 warps with 64 threads
  per warp gets \<^verbatim>\<open>nvvm.maxntid = 128\<close> where threads-per-warp \<open>\<times>\<close> warp-count is 256.
\<close>

theorem maxntid_spec_counterexample:
  "lowerFunction genx tc0 ROCDL module64 kernel0 =
     Inr \<lparr> llName = ''kernel'', llInputs = [LLVMPointerType 1, IntegerType 32], llResults = [],
           llAttrs = [(''nvvm.kernel'', IntegerAttr 1 1),
                      (''nvvm.maxntid'', DenseI32ArrayAttr [128])],
           llArgAttrs = [DictionaryAttr [], DictionaryAttr []],
           llBlockArgs = [LLVMPointerType 1, IntegerType 32] \<rparr>
   \<and> threadsPerWarp module64 * effectiveNumWarps module64 = 256"
  by (simp add: lowerFunction_def FuncOpConversion_def convertFuncOpToLLVMFuncOp_def
      kernel0_def module64_def tc0_def genx_def convertTypes_def targetAttrs_def
      effectiveNumWarps_def)

text \<open>
  C6 (amended): for the target GENX the lowered function's maximum work-group size is
  threads-per-warp \<open>\<times>\<close> warp-count (in 32-bit arithmetic, first of three dimensions); for
  NVVM and ROCDL the attribute \<^verbatim>\<open>nvvm.maxntid\<close> is 32 \<open>\<times>\<close> warp-count. In both, the warp
  count is the module's, multiplied by the extra-warp-groups-per-CTA attribute when the
  module has it.
\<close>

theorem maxntid_amended:
  assumes "lowerFunction gx tc target m funcOp = Inr newFuncOp"
  shows "(target \<noteq> GENX \<longrightarrow>
            map_of (llAttrs newFuncOp) ''nvvm.maxntid''
              = Some (DenseI32ArrayAttr [32 * effectiveNumWarps m])) \<and>
         (target = GENX \<longrightarrow> MaxWorkGroupSizeAttrName gx \<noteq> KernelFuncAttrName gx \<longrightarrow>
            MaxWorkGroupSizeAttrName gx \<noteq> ''passthrough'' \<longrightarrow>
            map_of (llAttrs newFuncOp) (MaxWorkGroupSizeAttrName gx)
              = Some (I32ArrayAttr [threadsPerWarp m * effectiveNumWarps m, 1, 1])) \<and>
         effectiveNumWarps m
           = numWarps m * (case numWarpGroupsPerCTA m of None \<Rightarrow> 1 | Some g \<Rightarrow> ucast g)"
  using FuncOpConversion_attrs [OF assms [unfolded lowerFunction_def]]
  by (auto simp: Let_def map_of_setAttr map_of_targetAttrs_maxntid map_of_targetAttrs_GENX
      effectiveNumWarps_eq)

theorem maxntid_amended_witness:
  "lowerFunction genx tc0 GENX module2 kernel0 =
     Inr \<lparr> llName = ''kernel'', llInputs = [LLVMPointerType 1, IntegerType 32], llResults = [],
           llAttrs = [(''genx.kernel'', IntegerAttr 32 1),
                      (''genx.max_work_group_size'', I32ArrayAttr [128, 1, 1]),
                      (''genx.intel_reqd_sub_group_size'', I32ArrayAttr [16])],
           llArgAttrs = [DictionaryAttr [], DictionaryAttr []],
           llBlockArgs = [LLVMPointerType 1, IntegerType 32] \<rparr>
   \<and> effectiveNumWarps module2 = 8 \<and> threadsPerWarp module2 * effectiveNumWarps module2 = 128"
proof -
  have e: "lowerFunction genx tc0 GENX module2 kernel0 =
     Inr \<lparr> llName = ''kernel'', llInputs = [LLVMPointerType 1, IntegerType 32], llResults = [],
           llAttrs = [(''genx.kernel'', IntegerAttr 32 1),
                      (''genx.max_work_group_size'', I32ArrayAttr [128, 1, 1]),
                      (''genx.intel_reqd_sub_group_size'', I32ArrayAttr [16])],
           llArgAttrs = [DictionaryAttr [], DictionaryAttr []],
           llBlockArgs = [LLVMPointerType 1, IntegerType 32] \<rparr>"
    by (simp add: lowerFunction_def FuncOpConversion_def convertFuncOpToLLVMFuncOp_def
      kernel0_def module2_def tc0_def genx_def convertTypes_def targetAttrs_def
      effectiveNumWarps_def setDialectAttrs_def)
  from maxntid_amended [OF e] show ?thesis
    using e by (simp add: module2_def genx_def)
qed

subsection \<open>Returns of entry functions\<close>

lemma hasAttr_targetAttrs_GENX:
  "hasAttr (targetAttrs gx nW GENX tpw k as) ''nvvm.kernel'' \<longleftrightarrow>
     (k \<and> KernelFuncAttrName gx = ''nvvm.kernel'')
      \<or> MaxWorkGroupSizeAttrName gx = ''nvvm.kernel''
      \<or> ReqdSubGroupSizeAttrName gx = ''nvvm.kernel''"
  by (auto simp: targetAttrs_def setDialectAttrs_def hasAttr_def map_add_def map_of_filter_nodot
      split: option.splits)

lemma hasAttr_targetAttrs_NVVM:
  "target \<noteq> GENX \<Longrightarrow> hasAttr (targetAttrs gx nW target tpw True as) ''nvvm.kernel''"
  by (cases target) (simp_all add: targetAttrs_def hasAttr_setAttr)

text \<open>
  On the function itself the return pattern does what C3 says: with the attribute
  \<^verbatim>\<open>nvvm.kernel\<close> a return with operands is a reported match failure and one without
  operands becomes an \<^verbatim>\<open>llvm.return\<close> without operands. Entry functions lowered for NVVM
  or ROCDL carry that attribute.
\<close>

lemma kernel_return_marked:
  assumes "hasAttr (llAttrs funcOp) ''nvvm.kernel''"
  shows "ReturnOpConversion tc funcOp op =
     (if retOperands op = []
      then Inr (LLVMReturnOp [] (retAttrs op))
      else Inl (MatchFailure
             (notifyMatchFailure ''Kernel functions do not support return with operands'')))"
  using assms by (simp add: ReturnOpConversion_def)

lemma kernel_return_rejected_NVVM:
  assumes "FuncOpConversion gx tc nW target tpw funcOp = Inr newFuncOp"
    and "target \<noteq> GENX" and "isKernel funcOp"
  shows "ReturnOpConversion tc newFuncOp op =
     (if retOperands op = []
      then Inr (LLVMReturnOp [] (retAttrs op))
      else Inl (MatchFailure
             (notifyMatchFailure ''Kernel functions do not support return with operands'')))"
  using FuncOpConversion_attrs [OF assms(1)] assms(2,3)
  by (simp add: ReturnOpConversion_def hasAttr_targetAttrs_NVVM)

lemma kernel1_GENX: "FuncOpConversion genx tc0 4 GENX 16 kernel1 = Inr llkernel1"
  by (simp add: FuncOpConversion_def convertFuncOpToLLVMFuncOp_def llkernel1_def
      kernel1_def tc0_def genx_def convertTypes_def targetAttrs_def packFunctionResults_def
      setDialectAttrs_def)

text \<open>
  C3 does not hold of entry functions lowered for GENX. There the function pattern marks
  the entry function with the GENX dialect's kernel attribute, and the return pattern
  still asks for \<^verbatim>\<open>nvvm.kernel\<close>: unless a GENX attribute name is \<^verbatim>\<open>nvvm.kernel\<close>, the
  return of an entry function with one operand is lowered as a device function's, to an
  \<^verbatim>\<open>llvm.return\<close> of that operand, and no failure is reported.
\<close>

theorem kernel_return_GENX:
  assumes "FuncOpConversion gx tc nW GENX tpw funcOp = Inr newFuncOp"
    and "isKernel funcOp"
    and "''nvvm.kernel'' \<notin> {KernelFuncAttrName gx, MaxWorkGroupSizeAttrName gx,
           ReqdSubGroupSizeAttrName gx}"
    and "retOperands op = [v]"
  shows "ReturnOpConversion tc newFuncOp op = Inr (LLVMReturnOp [v] (retAttrs op))"
proof -
  have "\<not> hasAttr (llAttrs newFuncOp) ''nvvm.kernel''"
    using FuncOpConversion_attrs [OF assms(1)] assms(2,3)
    by (auto simp: hasAttr_targetAttrs_GENX)
  then show ?thesis using assms(4) by (simp add: ReturnOpConversion_def)
qed

theorem kernel_return_GENX_witness:
  "FuncOpConversion genx tc0 4 GENX 16 kernel1 = Inr llkernel1 \<and> isKernel kernel1 \<and>
   ''nvvm.kernel'' \<notin> {KernelFuncAttrName genx, MaxWorkGroupSizeAttrName genx,
      ReqdSubGroupSizeAttrName genx} \<and>
   ReturnOpConversion tc0 llkernel1 ret1 = Inr (LLVMReturnOp [Value 1 (IntegerType 32)] [])"
  using kernel_return_GENX [OF kernel1_GENX, of ret1 "Value 1 (IntegerType 32)"] kernel1_GENX
  by (simp add: genx_def kernel1_def ret1_def)

subsection \<open>Packing and unpacking of results\<close>

lemma insertions_foldl:
  "insertions (foldl (\<lambda>p (i, v). InsertValueOp t p v i) acc (enumerate n vs))
     = insertions acc @ enumerate n vs"
  by (induction vs arbitrary: acc n) simp_all

lemma aggregateBase_foldl:
  "aggregateBase (foldl (\<lambda>p (i, v). InsertValueOp t p v i) acc (enumerate n vs))
     = aggregateBase acc"
  by (induction vs arbitrary: acc n) simp_all

lemma field_foldl:
  "field (foldl (\<lambda>p (i, v). InsertValueOp t p v i) acc (enumerate n vs)) j
     = (if n \<le> j \<and> j < n + length vs then Some (vs ! (j - n)) else field acc j)"
proof (induction vs arbitrary: acc n)
  case Nil
  then show ?case by auto
next
  case (Cons a vs)
  show ?case
    by (auto simp: Cons.IH Suc_diff_le nth_Cons')
qed

lemma packResults_props:
  "insertions (packResults t vs) = enumerate 0 vs"
  "aggregateBase (packResults t vs) = UndefOp t"
  "i < length vs \<Longrightarrow> field (packResults t vs) i = Some (vs ! i)"
  by (simp_all add: packResults_def insertions_foldl aggregateBase_foldl field_foldl)

lemma CallOpConversion_results:
  assumes "CallOpConversion tc target caller callOp = Inr (newCallOp, rs)"
  shows "rs = getCallOpResults callOp newCallOp"
    and "llCallResultTypes newCallOp =
           (if callResultTypes callOp = [] then []
            else [the (packFunctionResults tc (callResultTypes callOp))])"
    and "llCallId newCallOp = callId callOp"
  using assms
  by (auto simp: CallOpConversion_def convertCallOpToLLVMCallOp_def Let_def
      split: option.splits if_splits)

text \<open>
  What the two patterns do in a function that does not carry the marker
  \<^verbatim>\<open>nvvm.kernel\<close>, and at any call.
\<close>

lemma return_and_call_lowering:
  assumes "\<not> hasAttr (llAttrs funcOp) ''nvvm.kernel''"
  shows "(2 \<le> length (retOperands op) \<longrightarrow> llResults funcOp = [LLVMStructType ts] \<longrightarrow>
           (\<exists>packed. ReturnOpConversion tc funcOp op = Inr (LLVMReturnOp [packed] (retAttrs op)) \<and>
              aggregateBase packed = UndefOp (LLVMStructType ts) \<and>
              insertions packed = enumerate 0 (retOperands op) \<and>
              (\<forall>i < length (retOperands op). field packed i = Some (retOperands op ! i)))) \<and>
         (length (retOperands op) \<le> 1 \<longrightarrow>
            ReturnOpConversion tc funcOp op = Inr (LLVMReturnOp (retOperands op) (retAttrs op))) \<and>
         (CallOpConversion tc target caller callOp = Inr (newCallOp, rs) \<longrightarrow>
            (2 \<le> length (callResultTypes callOp) \<longrightarrow>
               length rs = length (callResultTypes callOp) \<and>
               (\<exists>agg. llvmCallResults newCallOp = [agg] \<and>
                  (\<forall>i < length rs. rs ! i = ExtractValueOp agg i))) \<and>
            (length (callResultTypes callOp) \<le> 1 \<longrightarrow>
               rs = llvmCallResults newCallOp \<and>
               length rs = length (callResultTypes callOp) \<and>
               map Some (llCallResultTypes newCallOp)
                 = map (convertType tc) (callResultTypes callOp) \<and>
               (\<forall>r \<in> set rs. \<not> isAggregateOp r)))"
proof (intro conjI impI)
  assume n: "2 \<le> length (retOperands op)" and r: "llResults funcOp = [LLVMStructType ts]"
  have "ReturnOpConversion tc funcOp op
          = Inr (LLVMReturnOp [packResults (LLVMStructType ts) (retOperands op)] (retAttrs op))"
    using assms n r by (simp add: ReturnOpConversion_def packFunctionResults_def)
  then show "\<exists>packed. ReturnOpConversion tc funcOp op = Inr (LLVMReturnOp [packed] (retAttrs op)) \<and>
              aggregateBase packed = UndefOp (LLVMStructType ts) \<and>
              insertions packed = enumerate 0 (retOperands op) \<and>
              (\<forall>i < length (retOperands op). field packed i = Some (retOperands op ! i))"
    by (simp add: packResults_props)
next
  assume "length (retOperands op) \<le> 1"
  then show "ReturnOpConversion tc funcOp op = Inr (LLVMReturnOp (retOperands op) (retAttrs op))"
    using assms by (simp add: ReturnOpConversion_def)
next
  assume c: "CallOpConversion tc target caller callOp = Inr (newCallOp, rs)"
    and n: "2 \<le> length (callResultTypes callOp)"
  note f = CallOpConversion_results [OF c]
  from n have ne: "callResultTypes callOp \<noteq> []" by auto
  have one: "llvmCallResults newCallOp
      = [LLVMCallResult (callId callOp) 0 (the (packFunctionResults tc (callResultTypes callOp)))]"
    using f(2,3) ne by (simp add: llvmCallResults_def)
  have rs: "rs = map (ExtractValueOp (LLVMCallResult (callId callOp) 0
                 (the (packFunctionResults tc (callResultTypes callOp)))))
               [0..<length (callResultTypes callOp)]"
    using f(1) n one by (simp add: getCallOpResults_def Let_def)
  show "length rs = length (callResultTypes callOp)" by (simp add: rs)
  show "\<exists>agg. llvmCallResults newCallOp = [agg] \<and> (\<forall>i < length rs. rs ! i = ExtractValueOp agg i)"
    using one by (simp add: rs)
next
  assume c: "CallOpConversion tc target caller callOp = Inr (newCallOp, rs)"
    and n: "length (callResultTypes callOp) \<le> 1"
  note f = CallOpConversion_results [OF c]
  show rs: "rs = llvmCallResults newCallOp"
    using f(1) n by (simp add: getCallOpResults_def Let_def)
  show "length rs = length (callResultTypes callOp)"
    using n f(2) by (cases "callResultTypes callOp") (simp_all add: rs llvmCallResults_def)
  show "map Some (llCallResultTypes newCallOp) = map (convertType tc) (callResultTypes callOp)"
  proof (cases "callResultTypes callOp")
    case Nil
    then show ?thesis using f(2) by simp
  next
    case (Cons t us)
    with n have us: "us = []" by simp
    from c Cons us show ?thesis
      by (auto simp: CallOpConversion_def convertCallOpToLLVMCallOp_def Let_def
          packFunctionResults_def split: option.splits)
  qed
  show "\<forall>r \<in> set rs. \<not> isAggregateOp r"
    by (auto simp: rs llvmCallResults_def)
qed

lemma FuncOpConversion_results:
  assumes "FuncOpConversion gx tc nW target tpw funcOp = Inr newFuncOp"
    and "2 \<le> length (results funcOp)"
  shows "\<exists>ts. convertTypes tc (results funcOp) = Some ts \<and>
              llResults newFuncOp = [LLVMStructType ts]"
proof -
  from assms(2) obtain t u us where r: "results funcOp = t # u # us"
    by (cases "results funcOp"; cases "tl (results funcOp)") auto
  then have p: "packFunctionResults tc (results funcOp)
                  = map_option LLVMStructType (convertTypes tc (results funcOp))"
    by (simp add: packFunctionResults_def)
  from assms(1) r have "llResults newFuncOp = [the (packFunctionResults tc (results funcOp))]"
      and "packFunctionResults tc (results funcOp) \<noteq> None"
    by (auto simp: FuncOpConversion_def convertFuncOpToLLVMFuncOp_def amendFuncOp_def Let_def
        split: option.splits if_splits)
  then show ?thesis unfolding p by (cases "convertTypes tc (results funcOp)") auto
qed

lemma device_function_unmarked:
  assumes "FuncOpConversion gx tc nW target tpw funcOp = Inr newFuncOp"
    and "\<not> isKernel funcOp"
    and "\<not> hasAttr (attrs funcOp) ''nvvm.kernel''"
    and "''nvvm.kernel'' \<notin> {MaxWorkGroupSizeAttrName gx, ReqdSubGroupSizeAttrName gx}"
  shows "\<not> hasAttr (llAttrs newFuncOp) ''nvvm.kernel''"
proof (cases "target = GENX")
  case True
  with FuncOpConversion_attrs [OF assms(1)] assms(2,4) show ?thesis
    by (auto simp: hasAttr_setAttr hasAttr_targetAttrs_GENX)
next
  case False
  with FuncOpConversion_attrs [OF assms(1)] assms(2,3) show ?thesis
    by (cases target) (auto simp: hasAttr_setAttr targetAttrs_def)
qed

text \<open>
  C2: let the function pattern succeed on a non-entry function (one that, like every
  function the pass is given, does not itself carry the marker \<^verbatim>\<open>nvvm.kernel\<close> that the
  pattern puts on entry functions), and let a return in it have as many operands as the
  function has results. With \<open>N \<ge> 2\<close> results the lowered function's result type is
  the struct of the converted results, and the return becomes a return of one aggregate,
  built from an undefined value of that struct by inserting the operands one after the
  other at the indices \<open>0, \<dots>, N - 1\<close>, so that field \<open>i\<close> holds the \<open>i\<close>-th operand;
  with \<open>N \<le> 1\<close> results it becomes a plain return of the same operands. When the call
  pattern succeeds on a call with \<open>N \<ge> 2\<close> results, the new call has a single result
  and the call site yields exactly \<open>N\<close> values, the \<open>i\<close>-th extracted from that result
  at index \<open>i\<close>; with \<open>N \<le> 1\<close> results the values are the new call's own results, of
  the converted type, and no aggregate operation is made.
\<close>

theorem return_packing:
  assumes "FuncOpConversion gx tc nW target tpw funcOp = Inr newFuncOp"
    and "\<not> isKernel funcOp"
    and "\<not> hasAttr (attrs funcOp) ''nvvm.kernel''"
    and "''nvvm.kernel'' \<notin> {MaxWorkGroupSizeAttrName gx, ReqdSubGroupSizeAttrName gx}"
    and "length (retOperands op) = length (results funcOp)"
  shows "(2 \<le> length (results funcOp) \<longrightarrow>
           (\<exists>packed ts. convertTypes tc (results funcOp) = Some ts \<and>
              llResults newFuncOp = [LLVMStructType ts] \<and>
              ReturnOpConversion tc newFuncOp op = Inr (LLVMReturnOp [packed] (retAttrs op)) \<and>
              aggregateBase packed = UndefOp (LLVMStructType ts) \<and>
              insertions packed = enumerate 0 (retOperands op) \<and>
              (\<forall>i < length (results funcOp). field packed i = Some (retOperands op ! i)))) \<and>
         (length (results funcOp) \<le> 1 \<longrightarrow>
            ReturnOpConversion tc newFuncOp op
              = Inr (LLVMReturnOp (retOperands op) (retAttrs op))) \<and>
         (CallOpConversion tc target' caller callOp = Inr (newCallOp, rs) \<longrightarrow>
            (2 \<le> length (callResultTypes callOp) \<longrightarrow>
               length rs = length (callResultTypes callOp) \<and>
               (\<exists>agg. llvmCallResults newCallOp = [agg] \<and>
                  (\<forall>i < length rs. rs ! i = ExtractValueOp agg i))) \<and>
            (length (callResultTypes callOp) \<le> 1 \<longrightarrow>
               rs = llvmCallResults newCallOp \<and>
               length rs = length (callResultTypes callOp) \<and>
               map Some (llCallResultTypes newCallOp)
                 = map (convertType tc) (callResultTypes callOp) \<and>
               (\<forall>r \<in> set rs. \<not> isAggregateOp r)))"
proof -
  have u: "\<not> hasAttr (llAttrs newFuncOp) ''nvvm.kernel''"
    by (rule device_function_unmarked [OF assms(1-4)])
  show ?thesis
  proof (intro conjI)
    show "2 \<le> length (results funcOp) \<longrightarrow>
           (\<exists>packed ts. convertTypes tc (results funcOp) = Some ts \<and>
              llResults newFuncOp = [LLVMStructType ts] \<and>
              ReturnOpConversion tc newFuncOp op = Inr (LLVMReturnOp [packed] (retAttrs op)) \<and>
              aggregateBase packed = UndefOp (LLVMStructType ts) \<and>
              insertions packed = enumerate 0 (retOperands op) \<and>
              (\<forall>i < length (results funcOp). field packed i = Some (retOperands op ! i)))"
    proof
      assume n: "2 \<le> length (results funcOp)"
      from FuncOpConversion_results [OF assms(1) n]
      obtain ts where ts: "convertTypes tc (results funcOp) = Some ts"
          "llResults newFuncOp = [LLVMStructType ts]" by blast
      from return_and_call_lowering [OF u, THEN conjunct1, of op ts tc] n ts(2) assms(5)
      obtain packed where
          "ReturnOpConversion tc newFuncOp op = Inr (LLVMReturnOp [packed] (retAttrs op))"
          "aggregateBase packed = UndefOp (LLVMStructType ts)"
          "insertions packed = enumerate 0 (retOperands op)"
          "\<forall>i < length (retOperands op). field packed i = Some (retOperands op ! i)"
        by auto
      with ts assms(5) show "\<exists>packed ts. convertTypes tc (results funcOp) = Some ts \<and>
              llResults newFuncOp = [LLVMStructType ts] \<and>
              ReturnOpConversion tc newFuncOp op = Inr (LLVMReturnOp [packed] (retAttrs op)) \<and>
              aggregateBase packed = UndefOp (LLVMStructType ts) \<and>
              insertions packed = enumerate 0 (retOperands op) \<and>
              (\<forall>i < length (results funcOp). field packed i = Some (retOperands op ! i))"
        by auto
    qed
    show "length (results funcOp) \<le> 1 \<longrightarrow>
            ReturnOpConversion tc newFuncOp op
              = Inr (LLVMReturnOp (retOperands op) (retAttrs op))"
      using return_and_call_lowering [OF u, THEN conjunct2, THEN conjunct1, of op tc] assms(5)
      by simp
    show "CallOpConversion tc target' caller callOp = Inr (newCallOp, rs) \<longrightarrow>
            (2 \<le> length (callResultTypes callOp) \<longrightarrow>
               length rs = length (callResultTypes callOp) \<and>
               (\<exists>agg. llvmCallResults newCallOp = [agg] \<and>
                  (\<forall>i < length rs. rs ! i = ExtractValueOp agg i))) \<and>
            (length (callResultTypes callOp) \<le> 1 \<longrightarrow>
               rs = llvmCallResults newCallOp \<and>
               length rs = length (callResultTypes callOp) \<and>
               map Some (llCallResultTypes newCallOp)
                 = map (convertType tc) (callResultTypes callOp) \<and>
               (\<forall>r \<in> set rs. \<not> isAggregateOp r))"
      by (rule return_and_call_lowering [OF u, THEN conjunct2, THEN conjunct2])
  qed
qed

lemma device1_GENX: "FuncOpConversion genx tc0 4 GENX 16 device1 = Inr lldevice1"
  by (simp add: FuncOpConversion_def convertFuncOpToLLVMFuncOp_def amendFuncOp_def
      device1_def lldevice1_def tc0_def genx_def convertTypes_def targetAttrs_def
      packFunctionResults_def ptrTy_def setDialectAttrs_def)

theorem return_packing_witness:
  "FuncOpConversion genx tc0 4 NVVM 32 device0 = Inr lldevice0 \<and> \<not> isKernel device0 \<and>
   length (retOperands ret2) = length (results device0) \<and>
   ReturnOpConversion tc0 lldevice0 ret2
     = Inr (LLVMReturnOp
         [InsertValueOp (LLVMStructType [IntegerType 32, IntegerType 32])
            (InsertValueOp (LLVMStructType [IntegerType 32, IntegerType 32])
               (UndefOp (LLVMStructType [IntegerType 32, IntegerType 32]))
               (Value 1 (IntegerType 32)) 0)
            (Value 2 (IntegerType 32)) 1] []) \<and>
   FuncOpConversion genx tc0 4 GENX 16 device1 = Inr lldevice1 \<and> \<not> isKernel device1 \<and>
   length (retOperands ret1) = length (results device1) \<and>
   ReturnOpConversion tc0 lldevice1 ret1 = Inr (LLVMReturnOp [Value 1 (IntegerType 32)] []) \<and>
   CallOpConversion tc0 NVVM lldevice0 call2
     = Inr (llcall2,
            [ExtractValueOp (LLVMCallResult 5 0 (LLVMStructType [IntegerType 32, IntegerType 32])) 0,
             ExtractValueOp (LLVMCallResult 5 0 (LLVMStructType [IntegerType 32, IntegerType 32])) 1])"
proof -
  have a0: "\<not> isKernel device0" "\<not> hasAttr (attrs device0) ''nvvm.kernel''"
      "length (retOperands ret2) = length (results device0)"
    by (simp_all add: device0_def hasAttr_def ret2_def)
  have a1: "\<not> isKernel device1" "\<not> hasAttr (attrs device1) ''nvvm.kernel''"
      "length (retOperands ret1) = length (results device1)"
    by (simp_all add: device1_def hasAttr_def ret1_def)
  have g: "''nvvm.kernel'' \<notin> {MaxWorkGroupSizeAttrName genx, ReqdSubGroupSizeAttrName genx}"
    by (simp add: genx_def)
  from return_packing [OF device0_NVVM a0(1,2) g a0(3)]
    return_packing [OF device1_GENX a1(1,2) g a1(3)]
  show ?thesis using a0 a1 device0_NVVM device1_GENX call2_NVVM
    by (simp add: ReturnOpConversion_def packFunctionResults_def packResults_def
        ret1_def ret2_def lldevice0_def lldevice1_def device0_def device1_def hasAttr_def)
qed

subsection \<open>Renaming of operands\<close>

lemma foldResultValues_map:
  "concat (map foldResultValues (map (mapFoldResult f) xs)) = map f (concat (map foldResultValues xs))"
proof (induction xs)
  case Nil
  then show ?case by simp
next
  case (Cons x xs)
  then show ?case by (cases x) simp_all
qed

lemma optionalOperand_map: "optionalOperand (map_option f x) = map f (optionalOperand x)"
  by (cases x) simp_all

lemma opOperands_mapOperands: "opOperands (mapOperands f op) = map f (opOperands op)"
  by (cases op) (simp_all add: optionalOperand_map foldResultValues_map [symmetric])

lemma opResults_mapOperands [simp]: "opResults (mapOperands f op) = opResults op"
  by (cases op) simp_all

lemma mapFoldResult_comp: "mapFoldResult f (mapFoldResult g x) = mapFoldResult (f \<circ> g) x"
  by (cases x) simp_all

lemma mapOperands_comp: "mapOperands f (mapOperands g op) = mapOperands (f \<circ> g) op"
  by (cases op) (simp_all add: option.map_comp mapFoldResult_comp comp_def)

lemma isNewConstant_mapOperands [simp]: "isNewConstant b (mapOperands f op) = isNewConstant b op"
  by (cases op) simp_all

lemma mapOperands_eq_CTA [simp]:
  "mapOperands f op = ClusterCTAIdOp v \<longleftrightarrow> op = ClusterCTAIdOp v"
  by (cases op) auto

lemma CTA_eq_mapOperands [simp]:
  "ClusterCTAIdOp v = mapOperands f op \<longleftrightarrow> op = ClusterCTAIdOp v"
  by (cases op) auto

lemma CTA_in_map [simp]:
  "ClusterCTAIdOp v \<in> set (map (mapOperands f) xs) \<longleftrightarrow> ClusterCTAIdOp v \<in> set xs"
  by (auto simp: image_iff)

lemma mapFoldResult_ident [simp]: "mapFoldResult (\<lambda>v. v) x = x"
  by (cases x) simp_all

lemma mapOperands_ident [simp]: "mapOperands (\<lambda>v. v) op = op"
  by (cases op) (simp_all add: option.map_ident [unfolded id_def] map_idI)

subsection \<open>Decomposition of async copies\<close>

lemma opAttrs_mapOperands: "opAttrs (mapOperands f op) = opAttrs op"
  by (cases op) simp_all



lemma created_results [simp]:
  "ld_result (createLoad a nv) = nv" "ins_result (createInsertSlice a l nv') = nv'"
  by (simp_all add: createLoad_def createInsertSlice_def Let_def)


lemma waitWalk_all_zero:
  "AsyncWaitOp n as \<in> set (waitWalk cfg True xs) \<Longrightarrow> n = 0"
  by (induction cfg True xs rule: waitWalk.induct) (auto split: if_splits)

lemma waitWalk_unsupported:
  "\<not> cfg_waitSupported cfg \<Longrightarrow> AsyncWaitOp n as \<notin> set (waitWalk cfg d xs)"
  by (induction cfg d xs rule: waitWalk.induct) auto

lemma isInsertSliceAsync_mapOperands [simp]:
  "isInsertSliceAsync (mapOperands f op) = isInsertSliceAsync op"
  by (cases op) simp_all

lemma isInsertSliceAsync_rauw [simp]:
  "isInsertSliceAsync (replaceAllUsesWith a b op) = isInsertSliceAsync op"
  by (simp add: replaceAllUsesWith_def)

lemma numAsync_map [simp]: "numAsync (map (replaceAllUsesWith a b) xs) = numAsync xs"
  by (induction xs) (simp_all add: numAsync_def)

lemma numAsync_append [simp]: "numAsync (xs @ ys) = numAsync xs + numAsync ys"
  by (simp add: numAsync_def)

lemma numAsync_Nil [simp]: "numAsync [] = 0"
  by (simp add: numAsync_def)

lemma numAsync_Cons: "numAsync (x # xs) = (if isInsertSliceAsync x then 1 else 0) + numAsync xs"
  by (simp add: numAsync_def)

lemma decomposeWalk_flag:
  "decomposeWalk cfg visited rest d nv = (out, d', nv') \<Longrightarrow>
     numAsync out \<le> numAsync visited + numAsync rest \<and>
     (d' \<longleftrightarrow> d \<or> numAsync out < numAsync visited + numAsync rest)"
proof (induction cfg visited rest d nv rule: decomposeWalk.induct)
  case (1 cfg visited decomposed nv)
  then show ?case by (auto simp: numAsync_def)
next
  case (2 cfg visited op rest decomposed nv)
  show ?case
  proof (cases op)
    case (InsertSliceAsyncOp a)
    show ?thesis
    proof (cases "loadByteWidth cfg a \<in> set (cfg_eligibleLoadByteWidth cfg)")
      case True
      with "2.prems" InsertSliceAsyncOp
      have "decomposeWalk cfg (visited @ [op]) rest decomposed nv = (out, d', nv')" by simp
      from "2.IH"(1) [OF InsertSliceAsyncOp True this] InsertSliceAsyncOp
      show ?thesis by (simp add: numAsync_Cons)
    next
      case False
      define loadOp where "loadOp = createLoad a nv"
      define insertSliceOp where "insertSliceOp = createInsertSlice a (ld_result loadOp) (nv + 1)"
      define rauw where "rauw = replaceAllUsesWith (isa_result a) (ins_result insertSliceOp)"
      from "2.prems" InsertSliceAsyncOp False
      have w: "decomposeWalk cfg (map rauw (visited @ [LoadOp loadOp, InsertSliceOp insertSliceOp]))
                 (map rauw rest) True (nv + 2) = (out, d', nv')"
        by (simp add: Let_def loadOp_def insertSliceOp_def rauw_def)
      from "2.IH"(2) [OF InsertSliceAsyncOp False loadOp_def insertSliceOp_def rauw_def w]
      show ?thesis using InsertSliceAsyncOp
        by (auto simp: numAsync_Cons rauw_def)
    qed
  qed (use "2.prems" "2.IH"(3-) in \<open>auto simp: numAsync_Cons\<close>)
qed

lemma numAsync_commitGroupWalk [simp]: "numAsync (commitGroupWalk cfg xs) = numAsync xs"
  by (induction cfg xs rule: commitGroupWalk.induct) (simp_all add: numAsync_Cons)

lemma numAsync_waitWalk [simp]: "numAsync (waitWalk cfg d xs) = numAsync xs"
  by (induction cfg d xs rule: waitWalk.induct) (simp_all add: numAsync_Cons)

lemma decomposedFlag_iff:
  "decomposedFlag cfg m \<longleftrightarrow>
     numAsync (ops (decomposeInsertSliceAsyncOp cfg m)) < numAsync (ops m)"
proof (cases "cfg_target cfg = GENX")
  case False
  then show ?thesis by (simp add: decomposedFlag_def decomposeInsertSliceAsyncOp_def)
next
  case True
  obtain out d nv where w: "decomposeWalk cfg [] (ops m) False (nextValue m) = (out, d, nv)"
    by (cases "decomposeWalk cfg [] (ops m) False (nextValue m)")
  from decomposeWalk_flag [OF w] True w show ?thesis
    by (simp add: decomposedFlag_def decomposeInsertSliceAsyncOp_def)
qed

lemma decompose_other_targets:
  "cfg_target cfg \<noteq> GENX \<Longrightarrow> decomposeInsertSliceAsyncOp cfg m = m"
  by (simp add: decomposeInsertSliceAsyncOp_def)

text \<open>
  C5, as the specification states it, fails in its last part: for a target other than
  GENX the step returns at once, so with a capability that does not support wait
  markers they are not erased. For ROCDL the wait with count 2 stays.
\<close>

theorem conservative_wait_counterexample:
  "cfg_target cfgR = ROCDL \<and> cfg_waitSupported cfgR = False \<and>
   waitCounts (ops module0) = [2] \<and>
   waitCounts (ops (decomposeInsertSliceAsyncOp cfgR module0)) = [2]"
  by (simp add: decomposeInsertSliceAsyncOp_def cfgR_def module0_def)

text \<open>
  C5 (amended): if the step decomposed at least one async copy (fewer of them remain
  than there were; this is when the flag \<^verbatim>\<open>decomposed\<close> is set, and it happens for the
  target GENX only), then every wait marker of the resulting module has the pending
  count 0. When the step runs (target GENX) for a capability that does not support wait
  markers, none remains, whether or not an async copy was decomposed. For every other
  target the step leaves the module, and so its wait markers, as they are.
\<close>

theorem conservative_wait:
  "(numAsync (ops (decomposeInsertSliceAsyncOp cfg m)) < numAsync (ops m) \<longrightarrow>
      cfg_target cfg = GENX \<and> decomposedFlag cfg m \<and>
      (\<forall>n as. AsyncWaitOp n as \<in> set (ops (decomposeInsertSliceAsyncOp cfg m)) \<longrightarrow> n = 0)) \<and>
   (cfg_target cfg = GENX \<and> \<not> cfg_waitSupported cfg \<longrightarrow>
      (\<forall>n as. AsyncWaitOp n as \<notin> set (ops (decomposeInsertSliceAsyncOp cfg m)))) \<and>
   (cfg_target cfg \<noteq> GENX \<longrightarrow> decomposeInsertSliceAsyncOp cfg m = m)"
proof (intro conjI impI)
  assume "numAsync (ops (decomposeInsertSliceAsyncOp cfg m)) < numAsync (ops m)"
  then show f: "decomposedFlag cfg m" by (simp add: decomposedFlag_iff)
  then show g: "cfg_target cfg = GENX" by (simp add: decomposedFlag_def)
  obtain out nv where w: "decomposeWalk cfg [] (ops m) False (nextValue m) = (out, True, nv)"
    using f by (cases "decomposeWalk cfg [] (ops m) False (nextValue m)")
      (auto simp: decomposedFlag_def)
  have o: "ops (decomposeInsertSliceAsyncOp cfg m) = waitWalk cfg True (commitGroupWalk cfg out)"
    using g w by (simp add: decomposeInsertSliceAsyncOp_def)
  show "\<forall>n as. AsyncWaitOp n as \<in> set (ops (decomposeInsertSliceAsyncOp cfg m)) \<longrightarrow> n = 0"
    by (auto simp: o dest: waitWalk_all_zero)
next
  assume a: "cfg_target cfg = GENX \<and> \<not> cfg_waitSupported cfg"
  obtain out d nv where w: "decomposeWalk cfg [] (ops m) False (nextValue m) = (out, d, nv)"
    by (cases "decomposeWalk cfg [] (ops m) False (nextValue m)")
  have o: "ops (decomposeInsertSliceAsyncOp cfg m) = waitWalk cfg d (commitGroupWalk cfg out)"
    using a w by (simp add: decomposeInsertSliceAsyncOp_def)
  show "\<forall>n as. AsyncWaitOp n as \<notin> set (ops (decomposeInsertSliceAsyncOp cfg m))"
    using a by (simp add: o waitWalk_unsupported)
next
  assume "cfg_target cfg \<noteq> GENX"
  then show "decomposeInsertSliceAsyncOp cfg m = m" by (rule decompose_other_targets)
qed

lemma decompose_module0: "decomposeInsertSliceAsyncOp cfg0 module0 = decomposed0"
  by (simp add: decomposeInsertSliceAsyncOp_def module0_def cfg0_def decomposed0_def async0_def
      loadByteWidth_def createLoad_def createInsertSlice_def replaceAllUsesWith_def Let_def
      upt_rec [of 0] upt_rec [of 1])

lemma decompose_module0_unsupported:
  "waitCounts (ops (decomposeInsertSliceAsyncOp cfgU module0)) = []"
  by (simp add: decomposeInsertSliceAsyncOp_def module0_def cfgU_def cfg0_def async0_def
      loadByteWidth_def createLoad_def createInsertSlice_def replaceAllUsesWith_def Let_def
      upt_rec [of 0] upt_rec [of 1])

theorem conservative_wait_witness:
  "numAsync (ops (decomposeInsertSliceAsyncOp cfg0 module0)) < numAsync (ops module0) \<and>
   decomposeInsertSliceAsyncOp cfg0 module0 = decomposed0 \<and>
   waitCounts (ops module0) = [2] \<and> waitCounts (ops decomposed0) = [0] \<and>
   AsyncWaitOp 0 [(''async_agent'', IntegerAttr 32 0)] \<in> set (ops decomposed0) \<and>
   cfg_target cfgU = GENX \<and> cfg_waitSupported cfgU = False \<and>
   waitCounts (ops (decomposeInsertSliceAsyncOp cfgU module0)) = [] \<and>
   cfg_target cfgR \<noteq> GENX \<and> decomposeInsertSliceAsyncOp cfgR module0 = module0"
proof -
  have h: "numAsync (ops (decomposeInsertSliceAsyncOp cfg0 module0)) < numAsync (ops module0)"
    unfolding decompose_module0 by (simp add: decomposed0_def module0_def numAsync_def)
  have r: "cfg_target cfgR \<noteq> GENX" by (simp add: cfgR_def)
  have u: "cfg_target cfgU = GENX" "cfg_waitSupported cfgU = False"
    by (simp_all add: cfgU_def cfg0_def)
  from conservative_wait [of cfg0 module0] conservative_wait [of cfgR module0]
    conservative_wait [of cfgU module0] h r u decompose_module0_unsupported
  show ?thesis
    by (simp add: decompose_module0) (simp add: decomposed0_def module0_def)
qed

subsection \<open>Warp-specialization attributes on the replacement operations\<close>










subsection \<open>The shared-memory global\<close>

lemma initSharedMemory_globals:
  "target' \<noteq> GENX \<Longrightarrow> initSharedMemory tc target' m = m \<lparr> globals := smemGlobal # globals m \<rparr>"
  by (cases target') (simp_all add: initSharedMemory_def smemGlobal_def kSharedMemorySpace_def)

lemma hasGlobalSmem_init:
  "target' \<noteq> GENX \<Longrightarrow> hasGlobalSmem (initSharedMemory tc target' m)"
  by (simp add: initSharedMemory_globals hasGlobalSmem_def smemGlobal_def)

text \<open>
  C9, as the specification states it, fails for the target GENX, for which
  \<^verbatim>\<open>initSharedMemory\<close> declares nothing.
\<close>

theorem shared_memory_global_counterexample:
  "globals (initSharedMemory tc0 GENX module0) = [] \<and> \<not> hasGlobalSmem (initSharedMemory tc0 GENX module0)"
  by (simp add: initSharedMemory_def module0_def hasGlobalSmem_def)

text \<open>
  C9 (amended): for the targets NVVM and ROCDL \<^verbatim>\<open>initSharedMemory\<close> puts the global
  \<^verbatim>\<open>global_smem\<close>, an array of length 0 with alignment 16, in front of the module's
  globals, and the lowering of calls and returns only ever runs on a module that has it
  (the pass gives the same result when that step is made to fail on any other module);
  for the target GENX the module stays as it is.
\<close>

theorem shared_memory_global_amended:
  "(target' \<noteq> GENX \<longrightarrow>
      globals (initSharedMemory tc target' m) = smemGlobal # globals m \<and>
      glob_type smemGlobal = LLVMArrayType (IntegerType 8) 0 \<and> glob_alignment smemGlobal = 16 \<and>
      (cfg_target cfg = target' \<longrightarrow>
        runOnOperation st cfg tc fuel m =
        runOnOperation
          (st \<lparr> st_convertCallAndRet :=
                  (\<lambda>x. if hasGlobalSmem x then st_convertCallAndRet st x else None) \<rparr>)
          cfg tc fuel m)) \<and>
   (target' = GENX \<longrightarrow> initSharedMemory tc target' m = m)"
proof (intro conjI impI)
  assume t: "target' \<noteq> GENX"
  show "globals (initSharedMemory tc target' m) = smemGlobal # globals m"
    by (simp add: initSharedMemory_globals [OF t])
  show "glob_type smemGlobal = LLVMArrayType (IntegerType 8) 0" by (simp add: smemGlobal_def)
  show "glob_alignment smemGlobal = 16" by (simp add: smemGlobal_def)
  assume "cfg_target cfg = target'"
  with t have "\<And>x. hasGlobalSmem (initSharedMemory tc (cfg_target cfg) x)"
    by (simp add: hasGlobalSmem_init)
  then show "runOnOperation st cfg tc fuel m =
        runOnOperation
          (st \<lparr> st_convertCallAndRet :=
                  (\<lambda>x. if hasGlobalSmem x then st_convertCallAndRet st x else None) \<rparr>)
          cfg tc fuel m"
    by (simp add: runOnOperation_def split: option.splits)
next
  assume "target' = GENX"
  then show "initSharedMemory tc target' m = m" by (simp add: initSharedMemory_def)
qed

subsection \<open>Folding the cluster CTA id\<close>

lemma not_new_if_below:
  "\<forall>v \<in> set (opResults op). v < b \<Longrightarrow> \<not> isNewConstant b op"
  by (cases op) auto

lemma foldCTAIdWalk_other:
  "\<not> (\<exists>r. op = ClusterCTAIdOp r) \<Longrightarrow>
   foldCTAIdWalk visited (op # rest) nv = foldCTAIdWalk (visited @ [op]) rest nv"
  by (cases op) auto

lemma foldCTAIdWalk_CTA:
  "foldCTAIdWalk visited (ClusterCTAIdOp r # rest) nv
     = foldCTAIdWalk
         (map (mapOperands (\<lambda>v. if v = r then nv else v)) visited
            @ [ConstantI32Op nv 0, ClusterCTAIdOp r])
         (map (mapOperands (\<lambda>v. if v = r then nv else v)) rest) (nv + 1)"
  by (simp add: Let_def replaceAllUsesWith_def)

lemma foldCTAIdWalk_char:
  assumes "foldCTAIdWalk visited rest nv = (out, nv')"
    and "b \<le> nv"
    and "\<forall>op \<in> set rest. \<forall>v \<in> set (opResults op). v < b"
  shows "\<exists>\<sigma> X. out = map (mapOperands \<sigma>) visited @ X \<and>
           filter (\<lambda>op. \<not> isNewConstant b op) X = map (mapOperands \<sigma>) rest \<and>
           (\<forall>op \<in> set X. isNewConstant b op \<longrightarrow> (\<exists>z. op = ConstantI32Op z 0)) \<and>
           (\<forall>v. (ClusterCTAIdOp v \<in> set rest \<longrightarrow> b \<le> \<sigma> v \<and> ConstantI32Op (\<sigma> v) 0 \<in> set X) \<and>
                (ClusterCTAIdOp v \<notin> set rest \<longrightarrow> \<sigma> v = v))"
  using assms
proof (induction "length rest" arbitrary: visited rest nv out nv')
  case 0
  then have "out = visited" "rest = []" by simp_all
  then show ?case
    by (intro exI [of _ "\<lambda>v. v"] exI [of _ "[]"]) simp
next
  case (Suc n)
  then obtain op rest' where rest: "rest = op # rest'" and n: "n = length rest'"
    by (cases rest) auto
  from Suc.prems(3) rest
  have below: "\<forall>v \<in> set (opResults op). v < b"
    and below': "\<forall>op \<in> set rest'. \<forall>v \<in> set (opResults op). v < b" by auto
  show ?case
  proof (cases "\<exists>r. op = ClusterCTAIdOp r")
    case False
    have w: "foldCTAIdWalk (visited @ [op]) rest' nv = (out, nv')"
      using Suc.prems(1) unfolding rest foldCTAIdWalk_other [OF False] .
    from Suc.hyps(1) [OF n w Suc.prems(2) below']
    obtain \<sigma> X where IH: "out = map (mapOperands \<sigma>) (visited @ [op]) @ X"
        "filter (\<lambda>op. \<not> isNewConstant b op) X = map (mapOperands \<sigma>) rest'"
        "\<forall>op \<in> set X. isNewConstant b op \<longrightarrow> (\<exists>z. op = ConstantI32Op z 0)"
        "\<forall>v. (ClusterCTAIdOp v \<in> set rest' \<longrightarrow> b \<le> \<sigma> v \<and> ConstantI32Op (\<sigma> v) 0 \<in> set X) \<and>
             (ClusterCTAIdOp v \<notin> set rest' \<longrightarrow> \<sigma> v = v)"
      by blast
    have nn: "\<not> isNewConstant b op" by (rule not_new_if_below [OF below])
    show ?thesis
      using IH nn False
      by (intro exI [of _ \<sigma>] exI [of _ "mapOperands \<sigma> op # X"]) (auto simp: rest)
  next
    case True
    then obtain r where op: "op = ClusterCTAIdOp r" by blast
    let ?\<rho> = "\<lambda>v. if v = r then nv else v"
    have w: "foldCTAIdWalk
         (map (mapOperands ?\<rho>) visited @ [ConstantI32Op nv 0, ClusterCTAIdOp r])
         (map (mapOperands ?\<rho>) rest') (nv + 1) = (out, nv')"
      using Suc.prems(1) rest op by (simp only: foldCTAIdWalk_CTA)
    have n': "n = length (map (mapOperands ?\<rho>) rest')" using n by simp
    have b': "b \<le> nv + 1" using Suc.prems(2) by simp
    have below'': "\<forall>op \<in> set (map (mapOperands ?\<rho>) rest'). \<forall>v \<in> set (opResults op). v < b"
      using below' by auto
    from Suc.hyps(1) [OF n' w b' below'']
    obtain \<sigma> X where IH:
        "out = map (mapOperands \<sigma>)
                 (map (mapOperands ?\<rho>) visited @ [ConstantI32Op nv 0, ClusterCTAIdOp r]) @ X"
        "filter (\<lambda>op. \<not> isNewConstant b op) X = map (mapOperands \<sigma>) (map (mapOperands ?\<rho>) rest')"
        "\<forall>op \<in> set X. isNewConstant b op \<longrightarrow> (\<exists>z. op = ConstantI32Op z 0)"
        "\<forall>v. (ClusterCTAIdOp v \<in> set (map (mapOperands ?\<rho>) rest')
                 \<longrightarrow> b \<le> \<sigma> v \<and> ConstantI32Op (\<sigma> v) 0 \<in> set X) \<and>
             (ClusterCTAIdOp v \<notin> set (map (mapOperands ?\<rho>) rest') \<longrightarrow> \<sigma> v = v)"
      by blast
    have IH4: "\<forall>v. (ClusterCTAIdOp v \<in> set rest'
                 \<longrightarrow> b \<le> \<sigma> v \<and> ConstantI32Op (\<sigma> v) 0 \<in> set X) \<and>
             (ClusterCTAIdOp v \<notin> set rest' \<longrightarrow> \<sigma> v = v)"
      using IH(4) unfolding CTA_in_map .
    have nvfix: "\<sigma> nv = nv"
    proof -
      have "ClusterCTAIdOp nv \<notin> set rest'"
        using below' Suc.prems(2) by fastforce
      with IH4 show ?thesis by blast
    qed
    show ?thesis
    proof (intro exI [of _ "\<sigma> \<circ> ?\<rho>"] exI [of _ "[ConstantI32Op nv 0, ClusterCTAIdOp r] @ X"] conjI allI)
      show "out = map (mapOperands (\<sigma> \<circ> ?\<rho>)) visited @ [ConstantI32Op nv 0, ClusterCTAIdOp r] @ X"
        using IH(1) by (simp add: mapOperands_comp)
      show "filter (\<lambda>op. \<not> isNewConstant b op) ([ConstantI32Op nv 0, ClusterCTAIdOp r] @ X)
              = map (mapOperands (\<sigma> \<circ> ?\<rho>)) rest"
        using IH(2) Suc.prems(2) by (simp add: rest op mapOperands_comp)
      show "\<forall>op \<in> set ([ConstantI32Op nv 0, ClusterCTAIdOp r] @ X).
              isNewConstant b op \<longrightarrow> (\<exists>z. op = ConstantI32Op z 0)"
        using IH(3) by simp
      fix v
      show "ClusterCTAIdOp v \<in> set rest \<longrightarrow>
              b \<le> (\<sigma> \<circ> ?\<rho>) v \<and> ConstantI32Op ((\<sigma> \<circ> ?\<rho>) v) 0
                \<in> set ([ConstantI32Op nv 0, ClusterCTAIdOp r] @ X)"
        using IH4 nvfix Suc.prems(2) by (auto simp: rest op)
      show "ClusterCTAIdOp v \<notin> set rest \<longrightarrow> (\<sigma> \<circ> ?\<rho>) v = v"
        using IH4 by (auto simp: rest op)
    qed
  qed
qed

text \<open>
  C8: let the results of the module's operations be below its next unused value. With a
  CTA count of 1, the operations of the folded module other than the constants the walk
  created are those of the module with their operands renamed; the renaming maps the
  result of every cluster-id operation to the result of a created constant 0 and leaves
  every other value alone; the cluster-id operations are the same as before, and no
  operation of the folded module uses the result of one. With any other CTA count the
  module is unchanged.
\<close>

theorem cluster_id_folded:
  assumes "\<forall>op \<in> set (ops m). \<forall>v \<in> set (opResults op). v < nextValue m"
  shows "(nCTAs = 1 \<longrightarrow>
           (\<exists>\<sigma>. filter (\<lambda>op. \<not> isNewConstant (nextValue m) op) (ops (foldClusterCTAId nCTAs m))
                   = map (mapOperands \<sigma>) (ops m) \<and>
                (\<forall>op \<in> set (ops (foldClusterCTAId nCTAs m)).
                   isNewConstant (nextValue m) op \<longrightarrow> (\<exists>z. op = ConstantI32Op z 0)) \<and>
                (\<forall>v. (ClusterCTAIdOp v \<in> set (ops m) \<longrightarrow>
                        ConstantI32Op (\<sigma> v) 0 \<in> set (ops (foldClusterCTAId nCTAs m))) \<and>
                     (ClusterCTAIdOp v \<notin> set (ops m) \<longrightarrow> \<sigma> v = v))) \<and>
           (\<forall>r. ClusterCTAIdOp r \<in> set (ops (foldClusterCTAId nCTAs m)) \<longleftrightarrow>
                  ClusterCTAIdOp r \<in> set (ops m)) \<and>
           (\<forall>r. ClusterCTAIdOp r \<in> set (ops (foldClusterCTAId nCTAs m)) \<longrightarrow>
                (\<forall>op \<in> set (ops (foldClusterCTAId nCTAs m)). r \<notin> set (opOperands op)))) \<and>
         (nCTAs \<noteq> 1 \<longrightarrow> foldClusterCTAId nCTAs m = m)"
proof (intro conjI impI)
  assume "nCTAs \<noteq> 1"
  then show "foldClusterCTAId nCTAs m = m" by (simp add: foldClusterCTAId_def)
next
  assume one: "nCTAs = 1"
  let ?b = "nextValue m"
  obtain out nv' where w: "foldCTAIdWalk [] (ops m) ?b = (out, nv')"
    by (cases "foldCTAIdWalk [] (ops m) ?b")
  have o: "ops (foldClusterCTAId nCTAs m) = out"
    using one w by (simp add: foldClusterCTAId_def)
  from foldCTAIdWalk_char [OF w order_refl assms]
  obtain \<sigma> where c: "filter (\<lambda>op. \<not> isNewConstant ?b op) out = map (mapOperands \<sigma>) (ops m)"
      "\<forall>op \<in> set out. isNewConstant ?b op \<longrightarrow> (\<exists>z. op = ConstantI32Op z 0)"
      "\<forall>v. (ClusterCTAIdOp v \<in> set (ops m) \<longrightarrow> ?b \<le> \<sigma> v \<and> ConstantI32Op (\<sigma> v) 0 \<in> set out) \<and>
           (ClusterCTAIdOp v \<notin> set (ops m) \<longrightarrow> \<sigma> v = v)"
    by auto
  show "\<exists>\<sigma>. filter (\<lambda>op. \<not> isNewConstant (nextValue m) op) (ops (foldClusterCTAId nCTAs m))
                   = map (mapOperands \<sigma>) (ops m) \<and>
                (\<forall>op \<in> set (ops (foldClusterCTAId nCTAs m)).
                   isNewConstant (nextValue m) op \<longrightarrow> (\<exists>z. op = ConstantI32Op z 0)) \<and>
                (\<forall>v. (ClusterCTAIdOp v \<in> set (ops m) \<longrightarrow>
                        ConstantI32Op (\<sigma> v) 0 \<in> set (ops (foldClusterCTAId nCTAs m))) \<and>
                     (ClusterCTAIdOp v \<notin> set (ops m) \<longrightarrow> \<sigma> v = v))"
    unfolding o using c by (intro exI [of _ \<sigma>]) blast
  have mem: "ClusterCTAIdOp r \<in> set out \<longleftrightarrow> ClusterCTAIdOp r \<in> set (ops m)" for r
  proof -
    have "ClusterCTAIdOp r \<in> set out \<longleftrightarrow>
          ClusterCTAIdOp r \<in> set (filter (\<lambda>op. \<not> isNewConstant ?b op) out)" by simp
    also have "\<dots> \<longleftrightarrow> ClusterCTAIdOp r \<in> set (ops m)" unfolding c(1) by (rule CTA_in_map)
    finally show ?thesis .
  qed
  show "\<forall>r. ClusterCTAIdOp r \<in> set (ops (foldClusterCTAId nCTAs m)) \<longleftrightarrow>
                  ClusterCTAIdOp r \<in> set (ops m)"
    unfolding o using mem by blast
  show "\<forall>r. ClusterCTAIdOp r \<in> set (ops (foldClusterCTAId nCTAs m)) \<longrightarrow>
                (\<forall>op \<in> set (ops (foldClusterCTAId nCTAs m)). r \<notin> set (opOperands op))"
    unfolding o
  proof (intro allI impI ballI)
    fix r op'
    assume r: "ClusterCTAIdOp r \<in> set out" and op': "op' \<in> set out"
    from r have rm: "ClusterCTAIdOp r \<in> set (ops m)" by (simp add: mem)
    with assms have rb: "r < ?b" by fastforce
    have avoid: "\<sigma> v \<noteq> r" for v
    proof (cases "ClusterCTAIdOp v \<in> set (ops m)")
      case True
      with c(3) have "?b \<le> \<sigma> v" by blast
      with rb show ?thesis by simp
    next
      case False
      with c(3) have "\<sigma> v = v" by blast
      with False rm show ?thesis by auto
    qed
    show "r \<notin> set (opOperands op')"
    proof (cases "isNewConstant ?b op'")
      case True
      with c(2) op' obtain z where "op' = ConstantI32Op z 0" by blast
      then show ?thesis by simp
    next
      case False
      with op' have "op' \<in> set (filter (\<lambda>op. \<not> isNewConstant ?b op) out)" by simp
      then obtain op where "op' = mapOperands \<sigma> op" unfolding c(1) by auto
      then show ?thesis using avoid by (auto simp: opOperands_mapOperands)
    qed
  qed
qed


subsection \<open>Folding a splat mask\<close>

lemma FoldSplat_eq:
  "FoldSplatMaskInInsertAsync os op =
     (if foldedMask os op = op \<and>
         \<not> (\<exists>t m s. op = InsertSliceTMAOp t \<and> tma_mask t = Some m \<and> splatSrc os m = Some s)
      then Inl failure else Inr (foldedMask os op))"
  by (auto simp: FoldSplatMaskInInsertAsync_def foldedMask_def splatSrc_def
      split: operation.splits option.splits)

lemma definingOp_update:
  assumes "i < length os" and "os ! i = InsertSliceTMAOp t" and "tma_result t' = tma_result t"
  shows "definingOp (os [i := InsertSliceTMAOp t']) v = definingOp os v \<or>
         (\<exists>a b. definingOp (os [i := InsertSliceTMAOp t']) v = Some (InsertSliceTMAOp a) \<and>
                definingOp os v = Some (InsertSliceTMAOp b))"
  using assms
proof (induction os arbitrary: i)
  case Nil
  then show ?case by simp
next
  case (Cons x os)
  show ?case
  proof (cases i)
    case 0
    with Cons.prems show ?thesis by (auto simp: definingOp_def)
  next
    case (Suc j)
    with Cons.prems Cons.IH [of j] show ?thesis by (auto simp: definingOp_def)
  qed
qed

lemma splatSrc_update:
  assumes "i < length os" and "os ! i = InsertSliceTMAOp t" and "tma_result t' = tma_result t"
  shows "splatSrc (os [i := InsertSliceTMAOp t']) = splatSrc os"
proof
  fix v
  from definingOp_update [OF assms, of v]
  show "splatSrc (os [i := InsertSliceTMAOp t']) v = splatSrc os v"
    by (auto simp: splatSrc_def)
qed

lemma splatSrc_foldedMask:
  assumes "i < length os"
  shows "splatSrc (os [i := foldedMask os (os ! i)]) = splatSrc os"
proof (cases "\<exists>t m s. os ! i = InsertSliceTMAOp t \<and> tma_mask t = Some m \<and> splatSrc os m = Some s")
  case True
  then obtain t m s where t: "os ! i = InsertSliceTMAOp t" "tma_mask t = Some m" "splatSrc os m = Some s"
    by blast
  then have "foldedMask os (os ! i) = InsertSliceTMAOp (t \<lparr> tma_mask := Some s \<rparr>)"
    by (simp add: foldedMask_def)
  then show ?thesis using splatSrc_update [OF assms t(1), of "t \<lparr> tma_mask := Some s \<rparr>"] by simp
next
  case False
  then have "foldedMask os (os ! i) = os ! i"
    by (auto simp: foldedMask_def split: operation.splits option.splits)
  then show ?thesis by simp
qed

lemma foldedMask_cong: "splatSrc os' = splatSrc os \<Longrightarrow> foldedMask os' = foldedMask os"
  by (rule ext) (simp add: foldedMask_def cong: operation.case_cong option.case_cong)

lemma foldedMask_idem:
  assumes "\<forall>v s. splatSrc os v = Some s \<longrightarrow> splatSrc os s = None"
  shows "foldedMask os (foldedMask os op) = foldedMask os op"
  using assms by (auto simp: foldedMask_def split: operation.splits option.splits)

lemma FoldSplat_fails_after:
  assumes "\<forall>v s. splatSrc os v = Some s \<longrightarrow> splatSrc os s = None"
  shows "FoldSplatMaskInInsertAsync os (foldedMask os op) = Inl failure"
  using assms
  by (auto simp: FoldSplat_eq foldedMask_idem) (auto simp: foldedMask_def split: operation.splits option.splits)

lemma applyPatternGreedily_scalar:
  assumes "i < length os"
    and "\<forall>v s. splatSrc os v = Some s \<longrightarrow> splatSrc os s = None"
  shows "applyPatternGreedily (Suc (Suc n)) os i = Some (os [i := foldedMask os (os ! i)])"
proof (cases "FoldSplatMaskInInsertAsync os (os ! i)")
  case (Inl a)
  then have "foldedMask os (os ! i) = os ! i" by (simp add: FoldSplat_eq split: if_splits)
  with Inl assms(1) show ?thesis by simp
next
  case (Inr op')
  then have op': "op' = foldedMask os (os ! i)" by (simp add: FoldSplat_eq split: if_splits)
  let ?os = "os [i := foldedMask os (os ! i)]"
  have s: "splatSrc ?os = splatSrc os" by (rule splatSrc_foldedMask [OF assms(1)])
  have "FoldSplatMaskInInsertAsync ?os (?os ! i) = Inl failure"
    using FoldSplat_fails_after [of ?os "os ! i"] assms by (simp add: s foldedMask_cong [OF s])
  with Inr assms(1) show ?thesis by (simp add: op')
qed


lemma applyOpPatternsAndFold_scalar:
  assumes "distinct wl" and "\<forall>i \<in> set wl. i < length os"
    and "\<forall>v s. splatSrc os v = Some s \<longrightarrow> splatSrc os s = None"
  shows "applyOpPatternsAndFold (Suc (Suc n)) wl os
           = Some (map (\<lambda>k. if k \<in> set wl then foldedMask os (os ! k) else os ! k)
                     [0..<length os])"
  using assms
proof (induction wl arbitrary: os)
  case Nil
  then show ?case by (simp add: map_nth)
next
  case (Cons i wl)
  let ?os = "os [i := foldedMask os (os ! i)]"
  from Cons.prems have i: "i < length os" and ni: "i \<notin> set wl" and d: "distinct wl"
    and b: "\<forall>j \<in> set wl. j < length ?os" by auto
  have s: "splatSrc ?os = splatSrc os" by (rule splatSrc_foldedMask [OF i])
  have g: "applyPatternGreedily (Suc (Suc n)) os i = Some ?os"
    by (rule applyPatternGreedily_scalar [OF i Cons.prems(3)])
  have sc: "\<forall>v s. splatSrc ?os v = Some s \<longrightarrow> splatSrc ?os s = None"
    using Cons.prems(3) by (simp add: s)
  have "applyOpPatternsAndFold (Suc (Suc n)) (i # wl) os
          = applyOpPatternsAndFold (Suc (Suc n)) wl ?os"
    using g by simp
  also have "\<dots> = Some (map (\<lambda>k. if k \<in> set wl then foldedMask ?os (?os ! k) else ?os ! k)
                     [0..<length ?os])"
    by (rule Cons.IH [OF d b sc])
  also have "map (\<lambda>k. if k \<in> set wl then foldedMask ?os (?os ! k) else ?os ! k) [0..<length ?os]
           = map (\<lambda>k. if k \<in> set (i # wl) then foldedMask os (os ! k) else os ! k) [0..<length os]"
    using ni i by (auto simp: foldedMask_cong [OF s] nth_list_update)
  finally show ?case .
qed

lemma distinct_insertSlices: "distinct (insertSlices os)"
  by (simp add: insertSlices_def)

lemma foldedMask_other: "\<not> isInsertSliceTMA op \<Longrightarrow> foldedMask os op = op"
  by (cases op) (simp_all add: foldedMask_def)

lemma cleanup_scalar:
  assumes "\<forall>v s. splatSrc (ops m) v = Some s \<longrightarrow> splatSrc (ops m) s = None"
  shows "cleanup (Suc (Suc n)) m = Some (m \<lparr> ops := map (foldedMask (ops m)) (ops m) \<rparr>)"
proof -
  have "map (\<lambda>k. if k \<in> set (insertSlices (ops m)) then foldedMask (ops m) (ops m ! k)
                   else ops m ! k) [0..<length (ops m)]
        = map (foldedMask (ops m)) (ops m)"
    by (rule nth_equalityI) (auto simp: insertSlices_def foldedMask_other)
  moreover have "\<forall>i \<in> set (insertSlices (ops m)). i < length (ops m)"
    by (simp add: insertSlices_def)
  ultimately show ?thesis
    using applyOpPatternsAndFold_scalar [OF distinct_insertSlices _ assms, where n = n]
    by (simp add: cleanup_def)
qed

text \<open>
  C10: let the input of every splat be a scalar, that is, not itself the result of a
  splat. Then the cleanup ends (two rounds for each operation suffice), and in its
  result an \<^verbatim>\<open>InsertSliceTMAOp\<close> whose mask is the result of a splat has the splat's
  input as its mask and is otherwise the same, while one without mask, one whose mask no
  splat defines, and every other operation are as before.
\<close>

theorem splat_mask_folded:
  assumes "\<forall>v r s. definingOp (ops m) v = Some (SplatOp r s) \<longrightarrow>
             (\<forall>r' s'. definingOp (ops m) s \<noteq> Some (SplatOp r' s'))"
    and "2 \<le> fuel"
  shows "\<exists>m'. cleanup fuel m = Some m' \<and> length (ops m') = length (ops m) \<and>
     (\<forall>i < length (ops m).
        (case ops m ! i of
           InsertSliceTMAOp t \<Rightarrow>
             (case tma_mask t of
                None \<Rightarrow> ops m' ! i = ops m ! i
              | Some mk \<Rightarrow>
                  (case definingOp (ops m) mk of
                     Some (SplatOp r s) \<Rightarrow>
                       ops m' ! i = InsertSliceTMAOp (t \<lparr> tma_mask := Some s \<rparr>)
                   | _ \<Rightarrow> ops m' ! i = ops m ! i))
         | _ \<Rightarrow> ops m' ! i = ops m ! i))"
proof -
  from assms(2) obtain n where fuel: "fuel = Suc (Suc n)"
    by (metis Suc_le_D numeral_2_eq_2 Suc_le_mono)
  have sc: "\<forall>v s. splatSrc (ops m) v = Some s \<longrightarrow> splatSrc (ops m) s = None"
    using assms(1) by (auto simp: splatSrc_def split: option.splits operation.splits)
  let ?m = "m \<lparr> ops := map (foldedMask (ops m)) (ops m) \<rparr>"
  have c: "cleanup fuel m = Some ?m" unfolding fuel by (rule cleanup_scalar [OF sc])
  show ?thesis
  proof (intro exI [of _ ?m] conjI allI impI)
    show "cleanup fuel m = Some ?m" by (rule c)
    show "length (ops ?m) = length (ops m)" by simp
    fix i assume "i < length (ops m)"
    then show "case ops m ! i of
           InsertSliceTMAOp t \<Rightarrow>
             (case tma_mask t of
                None \<Rightarrow> ops ?m ! i = ops m ! i
              | Some mk \<Rightarrow>
                  (case definingOp (ops m) mk of
                     Some (SplatOp r s) \<Rightarrow>
                       ops ?m ! i = InsertSliceTMAOp (t \<lparr> tma_mask := Some s \<rparr>)
                   | _ \<Rightarrow> ops ?m ! i = ops m ! i))
         | _ \<Rightarrow> ops ?m ! i = ops m ! i"
      by (auto simp: foldedMask_def splatSrc_def split: operation.splits option.splits)
  qed
qed

subsection \<open>Evaluations of the module-level steps\<close>

lemma cleanup_moduleT: "cleanup 2 moduleT = Some moduleT'"
  by (simp add: cleanup_def insertSlices_def moduleT_def moduleT'_def numeral_2_eq_2
      FoldSplatMaskInInsertAsync_def definingOp_def upt_rec [of 0] upt_rec [of 1] upt_rec [of 2]
      upt_rec [of 3])

theorem splat_mask_folded_witness:
  "definingOp (ops moduleT) 2 = Some (SplatOp 2 1) \<and> definingOp (ops moduleT) 1 = None \<and>
   definingOp (ops moduleT) 7 = None \<and> (2::nat) \<le> 2 \<and> cleanup 2 moduleT = Some moduleT'"
proof -
  have h: "\<forall>v r s. definingOp (ops moduleT) v = Some (SplatOp r s) \<longrightarrow>
             (\<forall>r' s'. definingOp (ops moduleT) s \<noteq> Some (SplatOp r' s'))"
    by (auto simp: definingOp_def moduleT_def split: if_splits)
  from splat_mask_folded [OF h order_refl] cleanup_moduleT
  show ?thesis by (simp add: definingOp_def moduleT_def)
qed

theorem cluster_id_folded_witness:
  "list_all (\<lambda>op. list_all (\<lambda>v. v < nextValue moduleC) (opResults op)) (ops moduleC) \<and>
   numCTAs moduleC = 1 \<and> foldClusterCTAId (numCTAs moduleC) moduleC = moduleC' \<and>
   foldClusterCTAId 2 moduleC = moduleC"
proof -
  have h: "\<forall>op \<in> set (ops moduleC). \<forall>v \<in> set (opResults op). v < nextValue moduleC"
    by (simp add: moduleC_def)
  from cluster_id_folded [OF h, of 1] cluster_id_folded [OF h, of 2]
  show ?thesis
    by (simp add: foldClusterCTAId_def moduleC_def moduleC'_def replaceAllUsesWith_def Let_def)
qed

theorem shared_memory_global_amended_witness:
  "NVVM \<noteq> GENX \<and> cfg_target cfgN = NVVM \<and>
   globals (initSharedMemory tc0 NVVM moduleC) = [smemGlobal] \<and>
   runOnOperation stages0 cfgN tc0 2 moduleC = Some (moduleC' \<lparr> globals := [smemGlobal] \<rparr>) \<and>
   runOnOperation
     (stages0 \<lparr> st_convertCallAndRet :=
         (\<lambda>x. if hasGlobalSmem x then st_convertCallAndRet stages0 x else None) \<rparr>)
     cfgN tc0 2 moduleC = Some (moduleC' \<lparr> globals := [smemGlobal] \<rparr>) \<and>
   initSharedMemory tc0 GENX moduleC = moduleC"
proof -
  have r: "runOnOperation stages0 cfgN tc0 2 moduleC = Some (moduleC' \<lparr> globals := [smemGlobal] \<rparr>)"
    by (simp add: runOnOperation_def stages0_def cfgN_def decomposeInsertSliceAsyncOp_def
        cleanup_def insertSlices_def moduleC_def moduleC'_def initSharedMemory_def
        smemGlobal_def kSharedMemorySpace_def foldClusterCTAId_def replaceAllUsesWith_def
        Let_def upt_rec [of 0] upt_rec [of 1] upt_rec [of 2] upt_rec [of 3] upt_rec [of 4])
  from shared_memory_global_amended [of NVVM tc0 moduleC cfgN stages0 2]
    shared_memory_global_amended [of GENX tc0 moduleC cfgN stages0 2] r
  show ?thesis by (simp add: cfgN_def moduleC_def)
qed

end
